theory Spec2Isabelle
  imports Complex_Main "HOL-Library.Word" "HOL-Library.Sublist"
begin

section \<open>JavaScript values used by the generation client\<close>

text \<open>
  A JavaScript string is a sequence of 16-bit code units. String literals of the source
  are ASCII and are written as HOL string literals, injected by \<open>js\<close>.
\<close>

type_synonym code_unit = "16 word"
type_synonym jsstring = "code_unit list"

definition js :: "string \<Rightarrow> jsstring" where
  "js s = map (\<lambda>c. of_nat (of_char c)) s"

text \<open>
  \<open>String.prototype.trim\<close> strips WhiteSpace and LineTerminator code points from both
  ends: TAB, LF, VT, FF, CR, SP, NBSP, U+1680, U+2000 to U+200A, U+2028, U+2029, U+202F,
  U+205F, U+3000 and U+FEFF. All of them are single code units.
\<close>

definition is_whitespace :: "code_unit \<Rightarrow> bool" where
  "is_whitespace c \<longleftrightarrow>
     c = 0x0009 \<or> c = 0x000A \<or> c = 0x000B \<or> c = 0x000C \<or> c = 0x000D \<or> c = 0x0020 \<or>
     c = 0x00A0 \<or> c = 0x1680 \<or> (0x2000 \<le> c \<and> c \<le> 0x200A) \<or> c = 0x2028 \<or> c = 0x2029 \<or>
     c = 0x202F \<or> c = 0x205F \<or> c = 0x3000 \<or> c = 0xFEFF"

definition trim :: "jsstring \<Rightarrow> jsstring" where
  "trim s = rev (dropWhile is_whitespace (rev (dropWhile is_whitespace s)))"

text \<open>A string is truthy when it is not empty.\<close>

definition truthy :: "jsstring \<Rightarrow> bool" where
  "truthy s \<longleftrightarrow> s \<noteq> []"

text \<open>\<open>s.includes(p)\<close>: \<open>p\<close> occurs in \<open>s\<close> as a contiguous run of code units.\<close>

definition js_includes :: "jsstring \<Rightarrow> jsstring \<Rightarrow> bool" where
  "js_includes s p \<longleftrightarrow> sublist p s"

text \<open>
  A JavaScript number is an IEEE double: a finite value, one of the two infinities, or NaN.
  The finite values are modelled by the reals, of which the doubles are a subset; the source
  only compares numbers with \<open><=\<close>, which is false whenever an operand is NaN.
\<close>

datatype number = Num real | PosInfinity | NegInfinity | NaN

fun num_le :: "number \<Rightarrow> real \<Rightarrow> bool" where
  "num_le (Num x) c \<longleftrightarrow> x \<le> c"
| "num_le PosInfinity c \<longleftrightarrow> False"
| "num_le NegInfinity c \<longleftrightarrow> True"
| "num_le NaN c \<longleftrightarrow> False"

text \<open>
  A thrown value is either an \<open>Error\<close> object (or an object of a subclass), of which
  the source reads the \<open>message\<close>, or any other value, of which it only tests that it is
  not an \<open>Error\<close>.
\<close>

datatype thrown = JsError jsstring | NonError jsstring

text \<open>A promise that has settled is fulfilled with a value or rejected with a reason.\<close>

datatype 'a settled = Fulfilled 'a | Rejected thrown

section \<open>Instruction clauses\<close>

definition getStyleInstruction :: "jsstring \<Rightarrow> jsstring" where
  "getStyleInstruction style =
     (if style = js ''Realistic'' then
        js ''in a photorealistic, cinematic style, as if it were a still from a live-action movie''
      else if style = js ''Anime'' then
        js ''in a vibrant Japanese anime style, with characteristic large eyes, expressive features, and dynamic lines''
      else if style = js ''J-Art'' then
        js ''in a beautiful, painterly Japanese art style, similar to concept art for a fantasy JRPG''
      else if style = js ''Exaggerated'' then
        js ''in a heavily exaggerated caricature style, amplifying the subject's expression and features for comedic effect''
      else if style = js ''Comical'' then
        js ''in a goofy, comical cartoon style with bright colors and simplified, funny shapes''
      else if style = js ''Enchanted'' then
        js (''in the classic Disney animation style, reminiscent of films like 'The Little Mermaid' or 'Aladdin'' @ [CHR 0x27])
      else
        js (''in the classic Disney animation style, reminiscent of films like 'The Little Mermaid' or 'Aladdin'' @ [CHR 0x27]))"

definition getIntensityInstruction :: "number \<Rightarrow> jsstring" where
  "getIntensityInstruction intensity =
     (if num_le intensity 33 then
        js ''Subtly apply the style, making minimal changes to the original image's structure and preserving the subject's facial features as closely as possible.''
      else if num_le intensity 66 then
        js ''Apply a balanced style, preserving the core facial features of the subject while clearly transforming the overall aesthetic.''
      else
        js ''Heavily redraw the image in the style, retaining only the most essential facial characteristics (like eye position and basic expression) while transforming everything else significantly.'')"

text \<open>
  The three local strings that \<open>generateMemeImage\<close> assembles into the prompt, and the
  prompt template itself.
\<close>

definition textInstruction :: "jsstring \<Rightarrow> jsstring" where
  "textInstruction memeText =
     (if truthy (trim memeText) then
        js (''Finally, integrate the text '' @ [CHR 0x22]) @ memeText @
        js ([CHR 0x22] @ '' into the image using a prominent, stylized font that fits the chosen aesthetic.'')
      else [])"

definition descriptionInstruction :: "jsstring \<Rightarrow> jsstring" where
  "descriptionInstruction description =
     (if truthy (trim description) then
        js (''Crucially, you must modify the subject's expression, pose, and the scene's atmosphere to visually represent the following description: '' @ [CHR 0x22]) @
        description @ js ([CHR 0x22] @ ''.'')
      else [])"

definition fullPrompt :: "jsstring \<Rightarrow> jsstring \<Rightarrow> number \<Rightarrow> jsstring \<Rightarrow> jsstring" where
  "fullPrompt memeText description redrawIntensity style =
     js ''Your task is to create an image. Redraw the provided image '' @
     getStyleInstruction style @ js ''. '' @
     descriptionInstruction description @ js '' '' @
     getIntensityInstruction redrawIntensity @ js '' '' @
     textInstruction memeText @
     js '' The output must be the final image only, with no explanatory text.''"

section \<open>The service's request and response\<close>

text \<open>
  The shapes of the SDK's \<open>Blob\<close>, \<open>Part\<close>, \<open>Content\<close>, \<open>Candidate\<close> and
  \<open>GenerateContentResponse\<close>, with the fields the source reads or writes. Every field
  is optional in the SDK: an absent field (\<open>undefined\<close>) is \<open>None\<close>.
\<close>

record blob =
  data :: "jsstring option"
  mimeType :: "jsstring option"

record part =
  inlineData :: "blob option"
  "text" :: "jsstring option"

record content =
  parts :: "part list option"

record candidate =
  content :: "content option"

record response =
  candidates :: "candidate list option"

datatype modality = IMAGE | TEXT

record request =
  model :: jsstring
  contents :: content
  responseModalities :: "modality list"

record generated_image =
  base64 :: "jsstring option"
  mimeType :: "jsstring option"

section \<open>The timeout race\<close>

text \<open>
  The text of \<open>${ms / 1000}\<close> for a whole number of milliseconds: the integer part, and
  when the quotient is not whole a point and up to three decimals without trailing zeros.
  (This is the shortest decimal that reads back as the same double, for \<open>ms\<close> below \<open>10^15\<close>.)
\<close>

fun show_nat :: "nat \<Rightarrow> string" where
  "show_nat n =
     (if n < 10 then [''0123456789'' ! n] else show_nat (n div 10) @ [''0123456789'' ! (n mod 10)])"

declare show_nat.simps [simp del]

definition show_seconds :: "nat \<Rightarrow> string" where
  "show_seconds ms =
     show_nat (ms div 1000) @
     (if ms mod 1000 = 0 then []
      else ''.'' @ rev (dropWhile (\<lambda>c. c = CHR ''0'')
             (rev (map (\<lambda>d. ''0123456789'' ! d)
                [ms mod 1000 div 100, ms mod 100 div 10, ms mod 10]))))"

text \<open>
  The promise handed to \<open>withTimeout\<close> either never settles or settles once, some number
  of milliseconds after the call.
\<close>

datatype 'a promise = NeverSettles | SettlesAt nat "'a settled"

text \<open>
  The state of the promise that \<open>withTimeout\<close> returns: whether it has settled and how,
  and whether the timer is still armed. \<open>resolve\<close> and \<open>reject\<close> settle a pending
  promise and do nothing to a settled one.
\<close>

record 'a race =
  result :: "'a settled option"
  timer_armed :: bool

definition settle :: "'a settled \<Rightarrow> 'a race \<Rightarrow> 'a race" where
  "settle outcome s = (if result s = None then s\<lparr>result := Some outcome\<rparr> else s)"

definition clearTimeout :: "'a race \<Rightarrow> 'a race" where
  "clearTimeout s = s\<lparr>timer_armed := False\<rparr>"

text \<open>
  The three callbacks that \<open>withTimeout\<close> registers: the timer's, the \<open>then\<close> handler
  and the \<open>catch\<close> handler. A cleared timer does not run its callback.
\<close>

datatype 'a callback = TimerFired | Then 'a | Catch thrown

fun run_callback :: "nat \<Rightarrow> 'a race \<Rightarrow> 'a callback \<Rightarrow> 'a race" where
  "run_callback ms s TimerFired =
     (if timer_armed s then
        settle (Rejected (JsError (js (''Request timed out after '' @ show_seconds ms @ '' seconds.''))))
          (s\<lparr>timer_armed := False\<rparr>)
      else s)"
| "run_callback ms s (Then v) = settle (Fulfilled v) (clearTimeout s)"
| "run_callback ms s (Catch reason) = settle (Rejected reason) (clearTimeout s)"

text \<open>
  The order in which the event loop runs the callbacks. The timer is due \<open>ms\<close>
  milliseconds after the call; a promise that settles earlier has its handler run first, one
  that settles later has it run after the timer's. When both fall on the same millisecond
  the order is the event loop's choice, \<open>timer_first\<close>.
\<close>

definition reaction :: "'a settled \<Rightarrow> 'a callback" where
  "reaction outcome = (case outcome of Fulfilled v \<Rightarrow> Then v | Rejected reason \<Rightarrow> Catch reason)"

definition callbacks :: "bool \<Rightarrow> nat \<Rightarrow> 'a promise \<Rightarrow> 'a callback list" where
  "callbacks timer_first ms promise =
     (case promise of
        NeverSettles \<Rightarrow> [TimerFired]
      | SettlesAt t outcome \<Rightarrow>
          if t < ms \<or> (t = ms \<and> \<not> timer_first) then [reaction outcome, TimerFired]
          else [TimerFired, reaction outcome])"

definition withTimeout :: "bool \<Rightarrow> 'a promise \<Rightarrow> nat \<Rightarrow> 'a settled option" where
  "withTimeout timer_first promise ms =
     result (foldl (run_callback ms) \<lparr>result = None, timer_armed = True\<rparr>
               (callbacks timer_first ms promise))"

section \<open>generateMemeImage\<close>

text \<open>\<open>response.candidates?.[0]?.content?.parts\<close>\<close>

definition first_parts :: "response \<Rightarrow> part list option" where
  "first_parts response =
     (case candidates response of
        None \<Rightarrow> None
      | Some [] \<Rightarrow> None
      | Some (c # _) \<Rightarrow> (case content c of None \<Rightarrow> None | Some ct \<Rightarrow> parts ct))"

definition find_part :: "(part \<Rightarrow> bool) \<Rightarrow> response \<Rightarrow> part option" where
  "find_part P response =
     (case first_parts response of None \<Rightarrow> None | Some ps \<Rightarrow> find P ps)"

text \<open>
  What the \<open>try\<close> block does with the response. An object is truthy, so a part with any
  \<open>inlineData\<close> is an image part; a text is truthy when it is present and not empty.
\<close>

definition has_text :: "part \<Rightarrow> bool" where
  "has_text p = (case text p of None \<Rightarrow> False | Some t \<Rightarrow> truthy t)"

definition extract_image :: "response \<Rightarrow> generated_image settled" where
  "extract_image response =
     (let imagePart = find_part (\<lambda>p. inlineData p \<noteq> None) response in
      case Option.bind imagePart inlineData of
        Some b \<Rightarrow> Fulfilled \<lparr>base64 = data b, mimeType = blob.mimeType b\<rparr>
      | None \<Rightarrow>
          (let textPart = find_part has_text response in
           case Option.bind textPart text of
             Some t \<Rightarrow>
               if truthy t then
                 Rejected (JsError (js ''Model returned text instead of an image: '' @ t))
               else Rejected (JsError (js ''No image data found in the API response.''))
           | None \<Rightarrow> Rejected (JsError (js ''No image data found in the API response.''))))"

text \<open>The argument of \<open>ai.models.generateContent\<close>.\<close>

definition generation_request :: "jsstring \<Rightarrow> jsstring \<Rightarrow> jsstring \<Rightarrow> request" where
  "generation_request base64ImageData mimeType' prompt =
     \<lparr>model = js ''gemini-2.5-flash-image-preview'',
      contents = \<lparr>parts = Some
        [\<lparr>inlineData = Some \<lparr>data = Some base64ImageData, blob.mimeType = Some mimeType'\<rparr>,
          text = None\<rparr>,
         \<lparr>inlineData = None, text = Some prompt\<rparr>]\<rparr>,
      responseModalities = [IMAGE, TEXT]\<rparr>"

text \<open>
  The \<open>try\<close> block. The service is \<open>generateContent\<close>, a function of the request that
  tells when and how the call settles. The result \<open>None\<close> is a promise that stays pending.
\<close>

definition generateMemeImage_try ::
  "(request \<Rightarrow> response promise) \<Rightarrow> bool \<Rightarrow>
   jsstring \<Rightarrow> jsstring \<Rightarrow> jsstring \<Rightarrow> jsstring \<Rightarrow> number \<Rightarrow> jsstring \<Rightarrow>
   generated_image settled option" where
  "generateMemeImage_try generateContent timer_first
     base64ImageData mimeType' memeText description redrawIntensity style =
     (let generationPromise = generateContent
            (generation_request base64ImageData mimeType'
               (fullPrompt memeText description redrawIntensity style))
      in case withTimeout timer_first generationPromise 120000 of
           None \<Rightarrow> None
         | Some (Rejected reason) \<Rightarrow> Some (Rejected reason)
         | Some (Fulfilled response) \<Rightarrow> Some (extract_image response))"

text \<open>The \<open>catch\<close> block: the value it throws in place of the one it caught.\<close>

definition generateMemeImage_catch :: "thrown \<Rightarrow> thrown" where
  "generateMemeImage_catch error =
     (case error of
        JsError message \<Rightarrow>
          if js_includes message (js ''timed out'') then
            JsError (js ''Image generation timed out. The image may be too complex. Please try again with a different image.'')
          else JsError (js ''API Error: '' @ message)
      | NonError _ \<Rightarrow> JsError (js ''An unknown error occurred while calling the Gemini API.''))"

definition generateMemeImage ::
  "(request \<Rightarrow> response promise) \<Rightarrow> bool \<Rightarrow>
   jsstring \<Rightarrow> jsstring \<Rightarrow> jsstring \<Rightarrow> jsstring \<Rightarrow> number \<Rightarrow> jsstring \<Rightarrow>
   generated_image settled option" where
  "generateMemeImage generateContent timer_first
     base64ImageData mimeType' memeText description redrawIntensity style =
     (case generateMemeImage_try generateContent timer_first
             base64ImageData mimeType' memeText description redrawIntensity style of
        None \<Rightarrow> None
      | Some (Fulfilled generated) \<Rightarrow> Some (Fulfilled generated)
      | Some (Rejected error) \<Rightarrow> Some (Rejected (generateMemeImage_catch error)))"

section \<open>cropImageToSquare\<close>

text \<open>
  A decoded image and a canvas are both a grid of RGBA pixels with its dimensions; the grid
  is a list of rows. It is well formed when it has \<open>height\<close> rows of \<open>width\<close> pixels.
  A pixel is a 32-bit word of four 8-bit channels: red in the highest byte, then green and
  blue, and alpha in the lowest.
\<close>

type_synonym pixel = "32 word"

definition channels :: "pixel \<Rightarrow> nat \<times> nat \<times> nat \<times> nat" where
  "channels p =
     (let n = unat p in (n div 2 ^ 24, n div 2 ^ 16 mod 256, n div 2 ^ 8 mod 256, n mod 256))"

definition from_channels :: "nat \<times> nat \<times> nat \<times> nat \<Rightarrow> pixel" where
  "from_channels c = (case c of (r, g, b, a) \<Rightarrow> of_nat (r * 2 ^ 24 + g * 2 ^ 16 + b * 2 ^ 8 + a))"

definition opaque :: "pixel \<Rightarrow> bool" where
  "opaque p \<longleftrightarrow> unat p mod 256 = 255"

text \<open>
  The bitmap of a 2D canvas holds its colours multiplied by alpha, in 8 bits each, rounded to
  the nearest value. Reading the bitmap back divides by alpha again. The colour of a pixel
  that is not opaque does not survive the two roundings in general, and that of a fully
  transparent pixel is lost.
\<close>

definition premultiply :: "pixel \<Rightarrow> pixel" where
  "premultiply p =
     (case channels p of (r, g, b, a) \<Rightarrow>
        from_channels ((r * a + 127) div 255, (g * a + 127) div 255, (b * a + 127) div 255, a))"

definition unpremultiply :: "pixel \<Rightarrow> pixel" where
  "unpremultiply p =
     (case channels p of (r, g, b, a) \<Rightarrow>
        if a = 0 then from_channels (0, 0, 0, 0)
        else from_channels
          (min 255 ((r * 255 + a div 2) div a), min 255 ((g * 255 + a div 2) div a),
           min 255 ((b * 255 + a div 2) div a), a))"

record raster =
  width :: nat
  height :: nat
  pixels :: "pixel list list"

definition well_formed :: "raster \<Rightarrow> bool" where
  "well_formed r \<longleftrightarrow>
     length (pixels r) = height r \<and> list_all (\<lambda>row. length row = width r) (pixels r)"

text \<open>
  What the function asks of the browser: decoding the data URL (\<open>None\<close> is the
  \<open>onerror\<close> event), whether \<open>getContext('2d')\<close> gives a context, the filter that
  resamples a draw which is scaled or not aligned to the pixel grid, and the encoder that
  writes an image of the given type as a data URL.
\<close>

record browser =
  decode :: "jsstring \<Rightarrow> raster option"
  context2d :: bool
  resample :: "raster \<Rightarrow> rat \<Rightarrow> rat \<Rightarrow> rat \<Rightarrow> rat \<Rightarrow> rat \<Rightarrow> rat \<Rightarrow> rat \<Rightarrow> rat \<Rightarrow> raster \<Rightarrow> pixel list list"
  encode :: "jsstring \<Rightarrow> raster \<Rightarrow> jsstring"

text \<open>Setting the dimensions of a canvas clears it to transparent black.\<close>

definition blank :: "nat \<Rightarrow> nat \<Rightarrow> raster" where
  "blank w h = \<lparr>width = w, height = h, pixels = replicate h (replicate w 0)\<rparr>"

text \<open>
  \<open>ctx.drawImage(img, sx, sy, sw, sh, dx, dy, dw, dh)\<close> on a canvas. A draw that covers
  the whole canvas from a source rectangle of the same size, lying inside the image at whole
  pixel offsets, stores the pixels of that rectangle one for one, each multiplied by its
  alpha. Any other draw is left to the browser's filter. The dimensions of the canvas do not
  change.
\<close>

definition drawImage ::
  "browser \<Rightarrow> raster \<Rightarrow> rat \<Rightarrow> rat \<Rightarrow> rat \<Rightarrow> rat \<Rightarrow> rat \<Rightarrow> rat \<Rightarrow> rat \<Rightarrow> rat \<Rightarrow> raster \<Rightarrow> raster" where
  "drawImage env img sx sy sw sh dx dy dw dh canvas =
     canvas\<lparr>pixels :=
       (if of_int \<lfloor>sx\<rfloor> = sx \<and> of_int \<lfloor>sy\<rfloor> = sy \<and> 0 \<le> sx \<and> 0 \<le> sy \<and>
           sx + sw \<le> of_nat (width img) \<and> sy + sh \<le> of_nat (height img) \<and>
           sw = dw \<and> sh = dh \<and> dx = 0 \<and> dy = 0 \<and>
           dw = of_nat (width canvas) \<and> dh = of_nat (height canvas)
        then map (\<lambda>row. map premultiply (take (width canvas) (drop (nat \<lfloor>sx\<rfloor>) row)))
               (take (height canvas) (drop (nat \<lfloor>sy\<rfloor>) (pixels img)))
        else resample env img sx sy sw sh dx dy dw dh canvas)\<rparr>"

text \<open>
  \<open>canvas.toDataURL(type)\<close> reads the bitmap back and hands the pixels to the encoder.
\<close>

definition toDataURL :: "browser \<Rightarrow> jsstring \<Rightarrow> raster \<Rightarrow> jsstring" where
  "toDataURL env type canvas =
     encode env type (canvas\<lparr>pixels := map (map unpremultiply) (pixels canvas)\<rparr>)"

definition cropImageToSquare :: "browser \<Rightarrow> jsstring \<Rightarrow> jsstring settled" where
  "cropImageToSquare env dataUrl =
     (case decode env dataUrl of
        None \<Rightarrow> Rejected (NonError (js ''[object Event]''))
      | Some img \<Rightarrow>
          (let size = min (width img) (height img);
               canvas = blank size size
           in if \<not> context2d env then Rejected (JsError (js ''Could not get canvas context''))
              else
                (let startX = (of_nat (width img) - of_nat size) / 2;
                     startY = (of_nat (height img) - of_nat size) / 2
                 in Fulfilled (toDataURL env (js ''image/png'')
                      (drawImage env img startX startY (of_nat size) (of_nat size)
                         0 0 (of_nat size) (of_nat size) canvas)))))"

section \<open>Names for the fixed texts\<close>

abbreviation enchanted_clause :: jsstring where
  "enchanted_clause \<equiv> js (''in the classic Disney animation style, reminiscent of films like 'The Little Mermaid' or 'Aladdin'' @ [CHR 0x27])"

abbreviation subtle_clause :: jsstring where
  "subtle_clause \<equiv> js ''Subtly apply the style, making minimal changes to the original image's structure and preserving the subject's facial features as closely as possible.''"

abbreviation balanced_clause :: jsstring where
  "balanced_clause \<equiv> js ''Apply a balanced style, preserving the core facial features of the subject while clearly transforming the overall aesthetic.''"

abbreviation heavy_redraw_clause :: jsstring where
  "heavy_redraw_clause \<equiv> js ''Heavily redraw the image in the style, retaining only the most essential facial characteristics (like eye position and basic expression) while transforming everything else significantly.''"

abbreviation timer_message :: "nat \<Rightarrow> jsstring" where
  "timer_message ms \<equiv> js (''Request timed out after '' @ show_seconds ms @ '' seconds.'')"

abbreviation timeout_message :: jsstring where
  "timeout_message \<equiv> js ''Image generation timed out. The image may be too complex. Please try again with a different image.''"

abbreviation unknown_message :: jsstring where
  "unknown_message \<equiv> js ''An unknown error occurred while calling the Gemini API.''"

text \<open>
  A promise has settled by \<open>ms\<close> when it settles no later than \<open>ms\<close> milliseconds
  after the call.
\<close>

definition settled_by :: "nat \<Rightarrow> 'a promise \<Rightarrow> bool" where
  "settled_by ms promise = (case promise of NeverSettles \<Rightarrow> False | SettlesAt t _ \<Rightarrow> t \<le> ms)"

text \<open>The clause that carries the caption and the clause that carries the description.\<close>

abbreviation caption_clause :: "jsstring \<Rightarrow> jsstring" where
  "caption_clause memeText \<equiv>
     js (''Finally, integrate the text '' @ [CHR 0x22]) @ memeText @
     js ([CHR 0x22] @ '' into the image using a prominent, stylized font that fits the chosen aesthetic.'')"

abbreviation description_clause :: "jsstring \<Rightarrow> jsstring" where
  "description_clause description \<equiv>
     js (''Crucially, you must modify the subject's expression, pose, and the scene's atmosphere to visually represent the following description: '' @ [CHR 0x22]) @
     description @ js ([CHR 0x22] @ ''.'')"

text \<open>The words with which the two clauses open.\<close>

abbreviation caption_opening :: jsstring where
  "caption_opening \<equiv> js ''Finally, integrate the text''"

abbreviation description_opening :: jsstring where
  "description_opening \<equiv> js ''Crucially, you must modify''"

section \<open>Example inputs\<close>

text \<open>
  A 4 by 2 image with numbered pixels, a 2 by 2 image of opaque pixels, a single pixel
  with the colour (200, 100, 50) and alpha 3, and a browser that decodes every data URL to a
  given image, always provides a 2D context, and writes the low half of each pixel, one after
  the other, behind the header of the data URL.
\<close>

definition example_wide :: raster where
  "example_wide = \<lparr>width = 4, height = 2, pixels = [[1, 2, 3, 4], [5, 6, 7, 8]]\<rparr>"

definition example_square :: raster where
  "example_square =
     \<lparr>width = 2, height = 2, pixels = [[0x112233FF, 0x445566FF], [0x778899FF, 0xAABBCCFF]]\<rparr>"

definition example_translucent :: raster where
  "example_translucent = \<lparr>width = 1, height = 1, pixels = [[0xC8643203]]\<rparr>"

definition example_browser :: "raster \<Rightarrow> browser" where
  "example_browser img =
     \<lparr>decode = (\<lambda>_. Some img), context2d = True,
      resample = (\<lambda>_ _ _ _ _ _ _ _ _ canvas. pixels canvas),
      encode = (\<lambda>type r. js ''data:'' @ type @ js '';base64,'' @
                  concat (map (map ucast) (pixels r)))\<rparr>"

section \<open>Strings\<close>

lemma of_char_lt: "(of_char c :: nat) < 256"
proof -
  have "(of_char c :: nat) mod 256 < 256" by simp
  then show ?thesis by (simp only: of_char_mod_256)
qed

lemma js_unit_inj: "(of_nat (of_char a) :: 16 word) = of_nat (of_char b) \<longleftrightarrow> a = b"
proof -
  have "(of_char a :: nat) < 2 ^ 16" "(of_char b :: nat) < 2 ^ 16"
    by (rule order.strict_trans [OF of_char_lt], simp)+
  then show ?thesis
    by (simp add: word_of_nat_eq_iff take_bit_nat_eq_self)
qed

lemma js_inj: "inj js"
  unfolding js_def by (intro inj_mapI injI) (simp add: js_unit_inj)

lemma js_eq_iff: "js a = js b \<longleftrightarrow> a = b"
  using js_inj by (auto dest: injD)

lemma js_append: "js (a @ b) = js a @ js b"
  by (simp add: js_def)

lemma js_Nil: "js [] = []"
  by (simp add: js_def)

lemma truthy_dropWhile:
  "dropWhile P (rev (dropWhile P s)) \<noteq> [] \<longleftrightarrow> (\<exists>c\<in>set s. \<not> P c)"
proof
  assume "dropWhile P (rev (dropWhile P s)) \<noteq> []"
  then obtain c where "c \<in> set (dropWhile P s)" "\<not> P c"
    by (auto simp: dropWhile_eq_Nil_conv)
  then show "\<exists>c\<in>set s. \<not> P c"
    by (blast dest: set_dropWhileD)
next
  assume "\<exists>c\<in>set s. \<not> P c"
  then have ne: "dropWhile P s \<noteq> []"
    by (simp add: dropWhile_eq_Nil_conv)
  then have "\<not> P (hd (dropWhile P s))" "hd (dropWhile P s) \<in> set (dropWhile P s)"
    by (simp_all add: hd_dropWhile)
  then show "dropWhile P (rev (dropWhile P s)) \<noteq> []"
    by (auto simp: dropWhile_eq_Nil_conv)
qed

lemma truthy_trim: "truthy (trim s) \<longleftrightarrow> (\<exists>c\<in>set s. \<not> is_whitespace c)"
  unfolding truthy_def trim_def rev_is_Nil_conv by (rule truthy_dropWhile)

lemma js_includes_iff: "js_includes s p \<longleftrightarrow> (\<exists>a b. s = a @ p @ b)"
  by (simp add: js_includes_def sublist_def)

lemma js_includes_js: "js_includes (js s) (js p) \<longleftrightarrow> sublist p s"
proof
  assume "js_includes (js s) (js p)"
  then have "sublist (map (\<lambda>c. of_nat (of_char c) :: 16 word) p) (map (\<lambda>c. of_nat (of_char c)) s)"
    by (simp add: js_includes_def js_def)
  then have "\<exists>q. sublist q s \<and> map (\<lambda>c. of_nat (of_char c) :: 16 word) p = map (\<lambda>c. of_nat (of_char c)) q"
    by (rule sublist_map_rightE)
  then obtain q where q: "sublist q s" "js p = js q"
    by (auto simp: js_def)
  then show "sublist p s" by (simp add: js_eq_iff)
next
  assume "sublist p s"
  then show "js_includes (js s) (js p)"
    by (simp add: js_includes_def js_def map_mono_sublist)
qed

lemma clauses_distinct:
  "subtle_clause \<noteq> balanced_clause" "subtle_clause \<noteq> heavy_redraw_clause"
  "balanced_clause \<noteq> heavy_redraw_clause"
  by (simp_all add: js_eq_iff)

lemma js_includes_middle: "js_includes (a @ p @ b) p"
  unfolding js_includes_iff by blast

lemma refusal_prefix_no_timed_out:
  "js_includes (js ''Model returned text instead of an image: '' @ txt) (js ''timed out'') \<longleftrightarrow>
   js_includes txt (js ''timed out'')"
  by (simp add: js_includes_def js_def sublist_Cons_right)

section \<open>The race settles\<close>

lemma withTimeout_early:
  "t < ms \<Longrightarrow> withTimeout timer_first (SettlesAt t outcome) ms = Some outcome"
  by (cases outcome)
     (simp_all add: withTimeout_def callbacks_def reaction_def settle_def clearTimeout_def)

lemma withTimeout_late:
  "\<not> settled_by ms promise \<Longrightarrow>
   withTimeout timer_first promise ms = Some (Rejected (JsError (timer_message ms)))"
proof (cases promise)
  case NeverSettles
  then show ?thesis
    by (simp add: withTimeout_def callbacks_def settle_def)
next
  case (SettlesAt t outcome)
  assume "\<not> settled_by ms promise"
  with SettlesAt have "ms < t" by (simp add: settled_by_def)
  with SettlesAt show ?thesis
    by (cases outcome)
       (simp_all add: withTimeout_def callbacks_def reaction_def settle_def clearTimeout_def)
qed

lemma withTimeout_settles: "withTimeout timer_first promise ms \<noteq> None"
proof (cases promise)
  case NeverSettles
  then show ?thesis
    by (simp add: withTimeout_def callbacks_def settle_def)
next
  case (SettlesAt t outcome)
  then show ?thesis
    by (cases outcome)
       (simp_all add: withTimeout_def callbacks_def reaction_def settle_def clearTimeout_def)
qed

lemma timer_message_timed_out: "js_includes (timer_message ms) (js ''timed out'')"
proof -
  have "timer_message ms = js ''Request '' @ js ''timed out'' @ js ('' after '' @ show_seconds ms @ '' seconds.'')"
    by (simp add: js_def)
  then show ?thesis
    unfolding js_includes_iff by blast
qed

lemma timer_message_120000: "timer_message 120000 = js ''Request timed out after 120 seconds.''"
  by (simp add: show_seconds_def show_nat.simps)

lemma generate_in_time:
  assumes "generateContent (generation_request base64ImageData mimeType'
             (fullPrompt memeText description redrawIntensity style)) = SettlesAt t outcome"
    and "t < 120000"
  shows "generateMemeImage_try generateContent timer_first
           base64ImageData mimeType' memeText description redrawIntensity style =
         Some (case outcome of Fulfilled r \<Rightarrow> extract_image r | Rejected e \<Rightarrow> Rejected e)"
proof -
  have "withTimeout timer_first (SettlesAt t outcome) 120000 = Some outcome"
    using assms(2) by (rule withTimeout_early)
  then show ?thesis
    unfolding generateMemeImage_try_def Let_def assms(1)
    by (cases outcome) simp_all
qed

lemma find_first:
  assumes "\<forall>q\<in>set before. \<not> P q" and "P p"
  shows "find P (before @ p # after) = Some p"
  using assms by (induction before) simp_all

lemma extract_image_first:
  assumes "first_parts r = Some (before @ p # after)"
    and "\<forall>q\<in>set before. inlineData q = None"
    and "inlineData p = Some b"
  shows "extract_image r = Fulfilled \<lparr>base64 = data b, mimeType = blob.mimeType b\<rparr>"
proof -
  have "find (\<lambda>q. inlineData q \<noteq> None) (before @ p # after) = Some p"
    using assms(2,3) by (intro find_first) simp_all
  then have "find_part (\<lambda>q. inlineData q \<noteq> None) r = Some p"
    by (simp add: find_part_def assms(1))
  then show ?thesis
    by (simp add: extract_image_def assms(3))
qed

lemma api_error_not_timeout: "js ''API Error: '' @ m \<noteq> timeout_message"
  by (simp add: js_def)

lemma api_error_not_unknown: "js ''API Error: '' @ m \<noteq> unknown_message"
  by (simp add: js_def)

lemma generate_settled_in_time:
  assumes "generateContent (generation_request base64ImageData mimeType'
             (fullPrompt memeText description redrawIntensity style)) = SettlesAt t outcome"
    and "t < 120000"
  shows "generateMemeImage generateContent timer_first
           base64ImageData mimeType' memeText description redrawIntensity style =
         Some (case outcome of
                 Fulfilled r \<Rightarrow>
                   (case extract_image r of
                      Fulfilled g \<Rightarrow> Fulfilled g
                    | Rejected e \<Rightarrow> Rejected (generateMemeImage_catch e))
               | Rejected e \<Rightarrow> Rejected (generateMemeImage_catch e))"
  using assms(1,2)
    generate_in_time [where generateContent = generateContent and outcome = outcome]
  unfolding generateMemeImage_def
  by (cases outcome) (simp_all split: settled.splits)

lemma generate_settles:
  "generateMemeImage generateContent timer_first
     base64ImageData mimeType' memeText description redrawIntensity style \<noteq> None"
  using withTimeout_settles
    [of timer_first "generateContent (generation_request base64ImageData mimeType'
       (fullPrompt memeText description redrawIntensity style))" 120000]
  unfolding generateMemeImage_def generateMemeImage_try_def Let_def
  by (auto split: option.splits settled.splits)

section \<open>Copying pixels\<close>

lemma channels_bound:
  "channels p = (r, g, b, a) \<Longrightarrow> r < 256 \<and> g < 256 \<and> b < 256 \<and> a < 256"
proof -
  assume c: "channels p = (r, g, b, a)"
  have "unat p < 2 ^ 32"
    using unsigned_less [of p, where ?'a = nat] by simp
  then have "unat p div 2 ^ 24 < 256" by (simp add: less_mult_imp_div_less)
  with c show ?thesis
    by (auto simp: channels_def Let_def)
qed

lemma split_bytes:
  "n div 2 ^ 24 * 2 ^ 24 + n div 2 ^ 16 mod 256 * 2 ^ 16 + n div 2 ^ 8 mod 256 * 2 ^ 8 +
     n mod 256 = n" for n :: nat
proof -
  define q1 q2 q3 where "q1 = n div 256" and "q2 = q1 div 256" and "q3 = q2 div 256"
  have d2: "n div 65536 = q2" and d3: "n div 16777216 = q3"
    by (simp_all add: q1_def q2_def q3_def div_mult2_eq)
  have "n = q1 * 256 + n mod 256" "q1 = q2 * 256 + q1 mod 256" "q2 = q3 * 256 + q2 mod 256"
    by (simp_all add: q1_def q2_def q3_def)
  then have "q3 * 16777216 + q2 mod 256 * 65536 + q1 mod 256 * 256 + n mod 256 = n"
    by linarith
  then show ?thesis
    by (simp add: d2 d3 flip: q1_def)
qed

lemma from_channels_channels: "from_channels (channels p) = p"
proof -
  have "from_channels (channels p) =
      of_nat (unat p div 2 ^ 24 * 2 ^ 24 + unat p div 2 ^ 16 mod 256 * 2 ^ 16 +
        unat p div 2 ^ 8 mod 256 * 2 ^ 8 + unat p mod 256)"
    by (simp only: from_channels_def channels_def Let_def prod.case)
  also have "\<dots> = of_nat (unat p)"
    by (simp only: split_bytes)
  also have "\<dots> = p" by simp
  finally show ?thesis .
qed

lemma premultiply_opaque: "opaque p \<Longrightarrow> premultiply p = p"
proof -
  assume "opaque p"
  obtain r g b a where c: "channels p = (r, g, b, a)"
    by (cases "channels p") auto
  with \<open>opaque p\<close> have a: "a = 255"
    by (auto simp: channels_def opaque_def Let_def)
  have "(k * 255 + 127) div 255 = k" for k :: nat by simp
  then have "premultiply p = from_channels (channels p)"
    by (simp add: premultiply_def c a)
  then show ?thesis by (simp only: from_channels_channels)
qed

lemma unpremultiply_opaque: "opaque p \<Longrightarrow> unpremultiply p = p"
proof -
  assume "opaque p"
  obtain r g b a where c: "channels p = (r, g, b, a)"
    by (cases "channels p") auto
  with \<open>opaque p\<close> have a: "a = 255"
    by (auto simp: channels_def opaque_def Let_def)
  have k: "(k * 255 + 127) div 255 = k" for k :: nat by simp
  have "r < 256" "g < 256" "b < 256"
    using channels_bound [OF c] by simp_all
  then have "unpremultiply p = from_channels (channels p)"
    by (simp add: unpremultiply_def c a k)
  then show ?thesis by (simp only: from_channels_channels)
qed

lemma drawImage_dims:
  "width (drawImage env img sx sy sw sh dx dy dw dh canvas) = width canvas"
  "height (drawImage env img sx sy sw sh dx dy dw dh canvas) = height canvas"
  by (simp_all add: drawImage_def)

lemma half_offset:
  assumes "s \<le> w" and "even (w - s)"
  shows "((of_nat w - of_nat s) / 2 :: rat) = of_nat ((w - s) div 2)"
proof -
  from assms(2) obtain j where j: "w - s = 2 * j" by (blast elim: evenE)
  with assms(1) have "w = 2 * j + s" by simp
  then have "((of_nat w - of_nat s) / 2 :: rat) = of_nat j" by simp
  with j show ?thesis by simp
qed

lemma half_fits: "s \<le> w \<Longrightarrow> (w - s) div 2 + s \<le> (w::nat)"
  by arith

lemma drawImage_aligned:
  assumes "ox + s \<le> width img" and "oy + s \<le> height img"
  shows "pixels (drawImage env img (of_nat ox) (of_nat oy) (of_nat s) (of_nat s)
           0 0 (of_nat s) (of_nat s) (blank s s)) =
         map (\<lambda>row. map premultiply (take s (drop ox row))) (take s (drop oy (pixels img)))"
proof -
  have "(of_nat ox + of_nat s :: rat) \<le> of_nat (width img)"
    using assms(1) by (simp flip: of_nat_add)
  moreover have "(of_nat oy + of_nat s :: rat) \<le> of_nat (height img)"
    using assms(2) by (simp flip: of_nat_add)
  ultimately show ?thesis
    by (simp add: drawImage_def blank_def)
qed

lemma crop_nth:
  assumes "well_formed img" and "ox + s \<le> width img" and "oy + s \<le> height img"
    and "x < s" and "y < s"
  shows "map (\<lambda>row. map premultiply (take s (drop ox row))) (take s (drop oy (pixels img))) ! y ! x =
         premultiply (pixels img ! (oy + y) ! (ox + x))"
proof -
  have len: "length (pixels img) = height img"
    and rows: "\<And>row. row \<in> set (pixels img) \<Longrightarrow> length row = width img"
    using assms(1) by (auto simp: well_formed_def list_all_iff)
  have y1: "oy + y < length (pixels img)" using assms(3,5) len by simp
  then have "length (pixels img ! (oy + y)) = width img"
    by (intro rows nth_mem)
  with y1 assms show ?thesis
    by (simp add: len)
qed

lemma drawImage_whole:
  assumes "well_formed img" and "width img = height img"
  shows "drawImage env img 0 0 (of_nat (height img)) (of_nat (height img))
           0 0 (of_nat (height img)) (of_nat (height img)) (blank (height img) (height img)) =
         img\<lparr>pixels := map (map premultiply) (pixels img)\<rparr>"
proof -
  let ?s = "height img"
  have len: "length (pixels img) = ?s"
    and rows: "\<And>row. row \<in> set (pixels img) \<Longrightarrow> length row = ?s"
    using assms by (auto simp: well_formed_def list_all_iff)
  have "pixels (drawImage env img (of_nat 0) (of_nat 0) (of_nat ?s) (of_nat ?s)
           0 0 (of_nat ?s) (of_nat ?s) (blank ?s ?s)) =
         map (\<lambda>row. map premultiply (take ?s (drop 0 row))) (take ?s (drop 0 (pixels img)))"
    using assms(2) by (intro drawImage_aligned) simp_all
  also have "\<dots> = map (map premultiply) (pixels img)"
    using len rows by simp
  finally show ?thesis
    using assms(2) by (simp add: drawImage_def blank_def)
qed

section \<open>Where a clause can occur in the prompt\<close>

text \<open>
  A text cannot lie across a character that it does not contain. The prompt separates its
  parts by full stops and quotation marks, which the opening words of the two clauses do not
  contain, so an occurrence of the opening words lies within one part.
\<close>

lemma sublist_js: "sublist (js p) (js s) \<longleftrightarrow> sublist p s"
  using js_includes_js [of s p] by (simp add: js_includes_def)

lemma no_straddle:
  assumes "c \<notin> set p"
  shows "sublist p (xs @ [c] @ ys) \<longleftrightarrow> sublist p xs \<or> sublist p ys"
proof
  assume "sublist p (xs @ [c] @ ys)"
  then consider "sublist p xs" | "sublist p (c # ys)"
    | p1 p2 where "p = p1 @ p2" "suffix p1 xs" "prefix p2 (c # ys)"
    by (auto simp: sublist_append)
  then show "sublist p xs \<or> sublist p ys"
  proof cases
    case 1
    then show ?thesis by simp
  next
    case 2
    then have "prefix p (c # ys) \<or> sublist p ys"
      by (simp add: sublist_Cons_right)
    moreover have "sublist p ys" if "prefix p (c # ys)"
      using that assms by (cases p) simp_all
    ultimately show ?thesis by blast
  next
    case 3
    have "p2 = []"
      using 3(1,3) assms by (cases p2) simp_all
    with 3 have "suffix p xs" by simp
    then show ?thesis by (simp add: suffix_imp_sublist)
  qed
next
  assume "sublist p xs \<or> sublist p ys"
  then show "sublist p (xs @ [c] @ ys)"
    by (auto simp: sublist_append sublist_Cons_right)
qed

lemma no_straddle_js:
  assumes "ch \<notin> set p"
  shows "sublist (js p) (xs @ js [ch] @ ys) \<longleftrightarrow> sublist (js p) xs \<or> sublist (js p) ys"
proof -
  have "of_nat (of_char ch) \<notin> set (js p)"
    using assms by (auto simp: js_def js_unit_inj)
  then show ?thesis
    using no_straddle [of "of_nat (of_char ch)" "js p" xs ys] by (simp add: js_def)
qed

lemma style_cases:
  "getStyleInstruction style \<in>
     {js ''in a photorealistic, cinematic style, as if it were a still from a live-action movie'',
      js ''in a vibrant Japanese anime style, with characteristic large eyes, expressive features, and dynamic lines'',
      js ''in a beautiful, painterly Japanese art style, similar to concept art for a fantasy JRPG'',
      js ''in a heavily exaggerated caricature style, amplifying the subject's expression and features for comedic effect'',
      js ''in a goofy, comical cartoon style with bright colors and simplified, funny shapes'',
      enchanted_clause}"
  by (simp add: getStyleInstruction_def)

lemma intensity_cases:
  "getIntensityInstruction n \<in> {subtle_clause, balanced_clause, heavy_redraw_clause}"
  by (simp add: getIntensityInstruction_def)

lemma opening_not_in_style:
  "\<not> sublist caption_opening
       (js ''Your task is to create an image. Redraw the provided image '' @ getStyleInstruction style)"
  "\<not> sublist description_opening
       (js ''Your task is to create an image. Redraw the provided image '' @ getStyleInstruction style)"
  using style_cases [of style]
  by (auto simp flip: js_append simp add: sublist_js sublist_code)


lemma opening_not_in_tail:
  "\<not> sublist caption_opening
       (js '' '' @ js '' '' @ getIntensityInstruction n @ js '' '' @
        js '' The output must be the final image only, with no explanatory text.'')"
  "\<not> sublist description_opening
       (js '' '' @ js '' '' @ getIntensityInstruction n @ js '' '' @
        js '' The output must be the final image only, with no explanatory text.'')"
  "\<not> sublist description_opening
       (js '' '' @ js '' '' @ getIntensityInstruction n @ js '' '' @ js ''Finally, integrate the text '')"
  using intensity_cases [of n]
  by (auto simp flip: js_append simp add: sublist_js sublist_code)

lemma opening_not_in_fixed:
  "\<not> sublist caption_opening
       (js '' '' @ js ''Crucially, you must modify the subject's expression, pose, and the scene's atmosphere to visually represent the following description: '')"
  "\<not> sublist description_opening
       (js '' into the image using a prominent, stylized font that fits the chosen aesthetic.'' @
        js '' The output must be the final image only, with no explanatory text.'')"
  by (simp_all flip: js_append add: sublist_js sublist_code)

lemma opening_not_after_description:
  "\<not> sublist caption_opening
       (js '' '' @ getIntensityInstruction n @ js '' '' @
        js '' The output must be the final image only, with no explanatory text.'')"
  using intensity_cases [of n]
  by (auto simp flip: js_append simp add: sublist_js sublist_code)

lemma caption_opening_in_prompt:
  assumes "\<not> js_includes description caption_opening"
  shows "js_includes (fullPrompt memeText description redrawIntensity style) caption_opening \<longleftrightarrow>
         truthy (trim memeText)"
proof (cases "truthy (trim memeText)")
  case True
  have "fullPrompt memeText description redrawIntensity style =
      (js ''Your task is to create an image. Redraw the provided image '' @
       getStyleInstruction style @ js ''. '' @
       descriptionInstruction description @ js '' '' @
       getIntensityInstruction redrawIntensity @ js '' '') @ caption_opening @
      (js ('' '' @ [CHR 0x22]) @ memeText @
       js ([CHR 0x22] @ '' into the image using a prominent, stylized font that fits the chosen aesthetic.'') @
       js '' The output must be the final image only, with no explanatory text.'')"
    using True by (simp add: fullPrompt_def textInstruction_def js_def)
  then have "js_includes (fullPrompt memeText description redrawIntensity style) caption_opening"
    by (simp only: js_includes_middle)
  with True show ?thesis by simp
next
  case False
  let ?head = "js ''Your task is to create an image. Redraw the provided image '' @
       getStyleInstruction style"
  let ?close = "js '' The output must be the final image only, with no explanatory text.''"
  have dot: "CHR ''.'' \<notin> set ''Finally, integrate the text''"
    and quote: "CHR 0x22 \<notin> set ''Finally, integrate the text''"
    by simp_all
  have "\<not> sublist caption_opening (fullPrompt memeText description redrawIntensity style)"
  proof (cases "truthy (trim description)")
    case blank: False
    have "fullPrompt memeText description redrawIntensity style =
        ?head @ js [CHR ''.''] @
        (js '' '' @ js '' '' @ getIntensityInstruction redrawIntensity @ js '' '' @ ?close)"
      using False blank
      by (simp add: fullPrompt_def textInstruction_def descriptionInstruction_def js_def)
    then show ?thesis
      by (simp only: no_straddle_js [OF dot] opening_not_in_style opening_not_in_tail simp_thms)
  next
    case given: True
    have "fullPrompt memeText description redrawIntensity style =
        ?head @ js [CHR ''.''] @
        ((js '' '' @ js ''Crucially, you must modify the subject's expression, pose, and the scene's atmosphere to visually represent the following description: '') @
         js [CHR 0x22] @ (description @ js [CHR 0x22] @ ([] @ js [CHR ''.''] @
         (js '' '' @ getIntensityInstruction redrawIntensity @ js '' '' @ ?close))))"
      using False given
      by (simp add: fullPrompt_def textInstruction_def descriptionInstruction_def js_def)
    moreover have "\<not> sublist caption_opening description"
      using assms by (simp add: js_includes_def)
    moreover have "\<not> sublist caption_opening []"
      by (simp add: js_def)
    ultimately show ?thesis
      by (simp only: no_straddle_js [OF dot] no_straddle_js [OF quote] opening_not_in_style
          opening_not_in_fixed opening_not_after_description simp_thms)
  qed
  with False show ?thesis by (simp add: js_includes_def)
qed


lemma description_opening_in_prompt:
  assumes "\<not> js_includes memeText description_opening"
  shows "js_includes (fullPrompt memeText description redrawIntensity style) description_opening \<longleftrightarrow>
         truthy (trim description)"
proof (cases "truthy (trim description)")
  case True
  have "fullPrompt memeText description redrawIntensity style =
      (js ''Your task is to create an image. Redraw the provided image '' @
       getStyleInstruction style @ js ''. '') @ description_opening @
      (js ('' the subject's expression, pose, and the scene's atmosphere to visually represent the following description: '' @ [CHR 0x22]) @
       description @ js ([CHR 0x22] @ ''.'') @ js '' '' @
       getIntensityInstruction redrawIntensity @ js '' '' @ textInstruction memeText @
       js '' The output must be the final image only, with no explanatory text.'')"
    using True by (simp add: fullPrompt_def descriptionInstruction_def js_def)
  then have "js_includes (fullPrompt memeText description redrawIntensity style) description_opening"
    by (simp only: js_includes_middle)
  with True show ?thesis by simp
next
  case False
  let ?head = "js ''Your task is to create an image. Redraw the provided image '' @
       getStyleInstruction style"
  let ?close = "js '' The output must be the final image only, with no explanatory text.''"
  have dot: "CHR ''.'' \<notin> set ''Crucially, you must modify''"
    and quote: "CHR 0x22 \<notin> set ''Crucially, you must modify''"
    by simp_all
  have "\<not> sublist description_opening (fullPrompt memeText description redrawIntensity style)"
  proof (cases "truthy (trim memeText)")
    case blank: False
    have "fullPrompt memeText description redrawIntensity style =
        ?head @ js [CHR ''.''] @
        (js '' '' @ js '' '' @ getIntensityInstruction redrawIntensity @ js '' '' @ ?close)"
      using False blank
      by (simp add: fullPrompt_def textInstruction_def descriptionInstruction_def js_def)
    then show ?thesis
      by (simp only: no_straddle_js [OF dot] opening_not_in_style opening_not_in_tail simp_thms)
  next
    case given: True
    have "fullPrompt memeText description redrawIntensity style =
        ?head @ js [CHR ''.''] @
        ((js '' '' @ js '' '' @ getIntensityInstruction redrawIntensity @ js '' '' @
          js ''Finally, integrate the text '') @
         js [CHR 0x22] @ (memeText @ js [CHR 0x22] @
         (js '' into the image using a prominent, stylized font that fits the chosen aesthetic.'' @
          ?close)))"
      using False given
      by (simp add: fullPrompt_def textInstruction_def descriptionInstruction_def js_def)
    moreover have "\<not> sublist description_opening memeText"
      using assms by (simp add: js_includes_def)
    ultimately show ?thesis
      by (simp only: no_straddle_js [OF dot] no_straddle_js [OF quote] opening_not_in_style
          opening_not_in_fixed opening_not_in_tail simp_thms)
  qed
  with False show ?thesis by (simp add: js_includes_def)
qed

section \<open>Intensity tiers\<close>

text \<open>
  Claim C3. For every integer intensity from 0 to 100, \<open>getIntensityInstruction\<close> gives
  the subtle clause up to 33, the balanced clause from 34 to 66 and the heavy redraw clause
  from 67 on; the three clauses are different texts.
\<close>

theorem intensity_tiers:
  fixes i :: int
  assumes "0 \<le> i" and "i \<le> 100"
  shows "(i \<le> 33 \<longrightarrow> getIntensityInstruction (Num (of_int i)) = subtle_clause) \<and>
         (34 \<le> i \<and> i \<le> 66 \<longrightarrow> getIntensityInstruction (Num (of_int i)) = balanced_clause) \<and>
         (67 \<le> i \<longrightarrow> getIntensityInstruction (Num (of_int i)) = heavy_redraw_clause) \<and>
         distinct [subtle_clause, balanced_clause, heavy_redraw_clause]"
proof -
  have "real_of_int i \<le> 33 \<longleftrightarrow> i \<le> 33" "real_of_int i \<le> 66 \<longleftrightarrow> i \<le> 66"
    by linarith+
  then show ?thesis
    using clauses_distinct by (auto simp: getIntensityInstruction_def)
qed

theorem intensity_tiers_witness:
  "(0::int) \<le> 33 \<and> (33::int) \<le> 100 \<and>
   getIntensityInstruction (Num 33) = subtle_clause \<and>
   getIntensityInstruction (Num 34) = balanced_clause \<and>
   getIntensityInstruction (Num 66) = balanced_clause \<and>
   getIntensityInstruction (Num 67) = heavy_redraw_clause \<and>
   getIntensityInstruction (Num 0) = subtle_clause \<and>
   getIntensityInstruction (Num 100) = heavy_redraw_clause"
  using intensity_tiers [of 33] intensity_tiers [of 34] intensity_tiers [of 66]
    intensity_tiers [of 67] intensity_tiers [of 0] intensity_tiers [of 100]
  by simp

text \<open>
  Claim C10. The mapping is defined on every number. Every intensity below 0 and negative
  infinity give the subtle clause; every intensity above 100, positive infinity and NaN give
  the heavy redraw clause; every number gives one of the three clauses. Whatever the
  intensity, \<open>generateMemeImage\<close> settles, and it resolves whenever the service answers in
  time with a response that holds an image.
\<close>

theorem intensity_total:
  "(x < 0 \<longrightarrow> getIntensityInstruction (Num x) = subtle_clause) \<and>
   (100 < x \<longrightarrow> getIntensityInstruction (Num x) = heavy_redraw_clause) \<and>
   getIntensityInstruction NegInfinity = subtle_clause \<and>
   getIntensityInstruction PosInfinity = heavy_redraw_clause \<and>
   getIntensityInstruction NaN = heavy_redraw_clause \<and>
   getIntensityInstruction n \<in> {subtle_clause, balanced_clause, heavy_redraw_clause} \<and>
   generateMemeImage generateContent timer_first
     base64ImageData mimeType' memeText description n style \<noteq> None \<and>
   (generateContent (generation_request base64ImageData mimeType'
      (fullPrompt memeText description n style)) = SettlesAt t (Fulfilled r) \<and>
    t < 120000 \<and> extract_image r = Fulfilled g \<longrightarrow>
    generateMemeImage generateContent timer_first
      base64ImageData mimeType' memeText description n style = Some (Fulfilled g))"
proof -
  have "getIntensityInstruction n \<in> {subtle_clause, balanced_clause, heavy_redraw_clause}"
    by (cases n) (simp_all add: getIntensityInstruction_def)
  moreover have "generateMemeImage generateContent timer_first
      base64ImageData mimeType' memeText description n style = Some (Fulfilled g)"
    if "generateContent (generation_request base64ImageData mimeType'
      (fullPrompt memeText description n style)) = SettlesAt t (Fulfilled r)"
      "t < 120000" "extract_image r = Fulfilled g"
    using generate_settled_in_time [where generateContent = generateContent
        and outcome = "Fulfilled r", OF that(1,2)] that(3)
    by simp
  ultimately show ?thesis
    using generate_settles [of generateContent timer_first base64ImageData mimeType' memeText
        description n style]
    by (simp add: getIntensityInstruction_def)
qed

theorem intensity_total_witness:
  "(-5::real) < 0 \<and> getIntensityInstruction (Num (-5)) = subtle_clause \<and>
   (100::real) < 150 \<and> getIntensityInstruction (Num 150) = heavy_redraw_clause \<and>
   generateMemeImage
     (\<lambda>_. SettlesAt 2000 (Fulfilled \<lparr>candidates = Some [\<lparr>content = Some \<lparr>parts = Some
        [\<lparr>inlineData = Some \<lparr>data = Some (js ''iVBORw0KGgo=''), blob.mimeType = Some (js ''image/png'')\<rparr>,
          text = None\<rparr>]\<rparr>\<rparr>]\<rparr>))
     True (js ''AAAA'') (js ''image/png'') [] [] (Num 150) (js ''Anime'') =
   Some (Fulfilled \<lparr>base64 = Some (js ''iVBORw0KGgo=''), mimeType = Some (js ''image/png'')\<rparr>)"
proof -
  let ?r = "\<lparr>candidates = Some [\<lparr>content = Some \<lparr>parts = Some
        [\<lparr>inlineData = Some \<lparr>data = Some (js ''iVBORw0KGgo=''), blob.mimeType = Some (js ''image/png'')\<rparr>,
          text = None\<rparr>]\<rparr>\<rparr>]\<rparr>"
  have "extract_image ?r =
      Fulfilled \<lparr>base64 = Some (js ''iVBORw0KGgo=''), mimeType = Some (js ''image/png'')\<rparr>"
    by (simp add: extract_image_def find_part_def first_parts_def)
  then show ?thesis
    using intensity_total [of "-5"] intensity_total [of 150]
      intensity_total [where generateContent = "\<lambda>_. SettlesAt 2000 (Fulfilled ?r)"
        and timer_first = True and base64ImageData = "js ''AAAA''"
        and mimeType' = "js ''image/png''" and memeText = "[]" and description = "[]"
        and n = "Num 150" and style = "js ''Anime''" and t = 2000 and r = ?r]
    by simp
qed

section \<open>Style clauses\<close>

text \<open>
  Claim C7. A style outside the six known names gets the clause of \<open>Enchanted\<close>, the
  default; each known style has its own fixed clause, which the prompt places right after
  its opening words whatever the other inputs are.
\<close>

theorem style_clauses:
  "(style \<notin> {js ''Realistic'', js ''Anime'', js ''J-Art'', js ''Exaggerated'', js ''Comical'',
               js ''Enchanted''} \<longrightarrow>
      getStyleInstruction style = getStyleInstruction (js ''Enchanted'')) \<and>
   getStyleInstruction (js ''Enchanted'') = enchanted_clause \<and>
   getStyleInstruction (js ''Realistic'') =
     js ''in a photorealistic, cinematic style, as if it were a still from a live-action movie'' \<and>
   getStyleInstruction (js ''Anime'') =
     js ''in a vibrant Japanese anime style, with characteristic large eyes, expressive features, and dynamic lines'' \<and>
   getStyleInstruction (js ''J-Art'') =
     js ''in a beautiful, painterly Japanese art style, similar to concept art for a fantasy JRPG'' \<and>
   getStyleInstruction (js ''Exaggerated'') =
     js ''in a heavily exaggerated caricature style, amplifying the subject's expression and features for comedic effect'' \<and>
   getStyleInstruction (js ''Comical'') =
     js ''in a goofy, comical cartoon style with bright colors and simplified, funny shapes'' \<and>
   prefix (js ''Your task is to create an image. Redraw the provided image '' @
           getStyleInstruction style @ js ''. '')
     (fullPrompt memeText description redrawIntensity style)"
proof -
  have fallback: "getStyleInstruction style = getStyleInstruction (js ''Enchanted'')"
    if "style \<notin> {js ''Realistic'', js ''Anime'', js ''J-Art'', js ''Exaggerated'', js ''Comical'',
               js ''Enchanted''}"
    using that by (simp add: getStyleInstruction_def js_eq_iff)
  have known: "getStyleInstruction (js ''Enchanted'') = enchanted_clause"
    "getStyleInstruction (js ''Realistic'') =
       js ''in a photorealistic, cinematic style, as if it were a still from a live-action movie''"
    "getStyleInstruction (js ''Anime'') =
       js ''in a vibrant Japanese anime style, with characteristic large eyes, expressive features, and dynamic lines''"
    "getStyleInstruction (js ''J-Art'') =
       js ''in a beautiful, painterly Japanese art style, similar to concept art for a fantasy JRPG''"
    "getStyleInstruction (js ''Exaggerated'') =
       js ''in a heavily exaggerated caricature style, amplifying the subject's expression and features for comedic effect''"
    "getStyleInstruction (js ''Comical'') =
       js ''in a goofy, comical cartoon style with bright colors and simplified, funny shapes''"
    by (simp_all add: getStyleInstruction_def js_eq_iff)
  have placed: "prefix (js ''Your task is to create an image. Redraw the provided image '' @
           getStyleInstruction style @ js ''. '')
     (fullPrompt memeText description redrawIntensity style)"
    by (simp add: fullPrompt_def)
  from fallback known placed show ?thesis by blast
qed

theorem style_clauses_witness:
  "js ''Vaporwave'' \<notin> {js ''Realistic'', js ''Anime'', js ''J-Art'', js ''Exaggerated'',
      js ''Comical'', js ''Enchanted''} \<and>
   getStyleInstruction (js ''Vaporwave'') = enchanted_clause \<and>
   getStyleInstruction (js '''') = enchanted_clause"
  using style_clauses [of "js ''Vaporwave''"] style_clauses [of "js ''''"]
  by (simp add: js_eq_iff)

section \<open>Caption and description clauses\<close>

lemma caption_clause_in_prompt:
  assumes "truthy (trim memeText)"
  shows "js_includes (fullPrompt memeText description redrawIntensity style)
           (caption_clause memeText)"
proof -
  have "fullPrompt memeText description redrawIntensity style =
      (js ''Your task is to create an image. Redraw the provided image '' @
       getStyleInstruction style @ js ''. '' @
       descriptionInstruction description @ js '' '' @
       getIntensityInstruction redrawIntensity @ js '' '') @ caption_clause memeText @
       js '' The output must be the final image only, with no explanatory text.''"
    using assms by (simp add: fullPrompt_def textInstruction_def)
  then show ?thesis by (simp only: js_includes_middle)
qed

lemma description_clause_in_prompt:
  assumes "truthy (trim description)"
  shows "js_includes (fullPrompt memeText description redrawIntensity style)
           (description_clause description)"
proof -
  have "fullPrompt memeText description redrawIntensity style =
      (js ''Your task is to create an image. Redraw the provided image '' @
       getStyleInstruction style @ js ''. '') @ description_clause description @
       (js '' '' @ getIntensityInstruction redrawIntensity @ js '' '' @
        textInstruction memeText @
        js '' The output must be the final image only, with no explanatory text.'')"
    using assms by (simp add: fullPrompt_def descriptionInstruction_def)
  then show ?thesis by (simp only: js_includes_middle)
qed

lemma js_includes_trans:
  "js_includes s q \<Longrightarrow> js_includes q p \<Longrightarrow> js_includes s p"
  unfolding js_includes_iff by (metis append.assoc)

lemma opening_in_clause:
  "js_includes (caption_clause memeText) caption_opening"
  "js_includes (description_clause description) description_opening"
proof -
  have "caption_clause memeText = [] @ caption_opening @
      (js ('' '' @ [CHR 0x22]) @ memeText @
       js ([CHR 0x22] @ '' into the image using a prominent, stylized font that fits the chosen aesthetic.''))"
    by (simp add: js_def)
  then show "js_includes (caption_clause memeText) caption_opening"
    by (simp only: js_includes_middle)
  have "description_clause description = [] @ description_opening @
      (js ('' the subject's expression, pose, and the scene's atmosphere to visually represent the following description: '' @ [CHR 0x22]) @
       description @ js ([CHR 0x22] @ ''.''))"
    by (simp add: js_def)
  then show "js_includes (description_clause description) description_opening"
    by (simp only: js_includes_middle)
qed

lemma prompt_without_caption:
  "\<not> truthy (trim memeText) \<Longrightarrow>
   fullPrompt memeText description redrawIntensity style =
   fullPrompt [] description redrawIntensity style"
  by (simp add: fullPrompt_def textInstruction_def truthy_def trim_def)

lemma prompt_without_description:
  "\<not> truthy (trim description) \<Longrightarrow>
   fullPrompt memeText description redrawIntensity style =
   fullPrompt memeText [] redrawIntensity style"
  by (simp add: fullPrompt_def descriptionInstruction_def truthy_def trim_def)

text \<open>
  Claim C8, as stated, fails: with an empty caption and a description that is itself the text
  of the caption clause, the prompt contains the caption clause, inside the description
  clause, although the caption is empty after trimming.
\<close>

theorem clause_iff_trimmed_counterexample:
  "\<not> truthy (trim []) \<and>
   js_includes (fullPrompt [] (caption_clause []) (Num 50) (js ''Anime'')) (caption_clause [])"
proof -
  have "truthy (trim (caption_clause []))"
    by (simp add: truthy_trim) (simp add: js_def is_whitespace_def)
  then have "js_includes (fullPrompt [] (caption_clause []) (Num 50) (js ''Anime''))
      (description_clause (caption_clause []))"
    by (rule description_clause_in_prompt)
  moreover have "js_includes (description_clause (caption_clause [])) (caption_clause [])"
    by (simp only: js_includes_middle)
  ultimately have "js_includes (fullPrompt [] (caption_clause []) (Num 50) (js ''Anime''))
      (caption_clause [])"
    by (rule js_includes_trans)
  then show ?thesis
    by (simp add: truthy_def trim_def)
qed

text \<open>
  Claim C8, amended. When the description does not contain the opening words of the caption
  clause, the prompt contains the caption clause exactly when the caption is not empty after
  trimming, that is when it has a character that is not whitespace; likewise for the
  description clause when the caption does not contain its opening words. In any case a
  string that is not empty after trimming puts its clause into the prompt, and one that is
  empty or all whitespace leaves the prompt as it is for the empty string.
\<close>

theorem clause_iff_trimmed:
  "(\<not> js_includes description caption_opening \<longrightarrow>
      (js_includes (fullPrompt memeText description redrawIntensity style)
         (caption_clause memeText) \<longleftrightarrow> truthy (trim memeText)) \<and>
      (js_includes (fullPrompt memeText description redrawIntensity style) caption_opening \<longleftrightarrow>
       truthy (trim memeText))) \<and>
   (\<not> js_includes memeText description_opening \<longrightarrow>
      (js_includes (fullPrompt memeText description redrawIntensity style)
         (description_clause description) \<longleftrightarrow> truthy (trim description)) \<and>
      (js_includes (fullPrompt memeText description redrawIntensity style) description_opening \<longleftrightarrow>
       truthy (trim description))) \<and>
   (truthy (trim memeText) \<longleftrightarrow> (\<exists>c\<in>set memeText. \<not> is_whitespace c)) \<and>
   (truthy (trim description) \<longleftrightarrow> (\<exists>c\<in>set description. \<not> is_whitespace c)) \<and>
   (truthy (trim memeText) \<longrightarrow>
      js_includes (fullPrompt memeText description redrawIntensity style)
        (caption_clause memeText)) \<and>
   (truthy (trim description) \<longrightarrow>
      js_includes (fullPrompt memeText description redrawIntensity style)
        (description_clause description)) \<and>
   (\<not> truthy (trim memeText) \<longrightarrow>
      fullPrompt memeText description redrawIntensity style =
      fullPrompt [] description redrawIntensity style) \<and>
   (\<not> truthy (trim description) \<longrightarrow>
      fullPrompt memeText description redrawIntensity style =
      fullPrompt memeText [] redrawIntensity style)"
proof -
  let ?prompt = "fullPrompt memeText description redrawIntensity style"
  note t3 = caption_clause_in_prompt [of memeText description redrawIntensity style]
  note d3 = description_clause_in_prompt [of description memeText redrawIntensity style]
  note o1 = caption_opening_in_prompt [of description memeText redrawIntensity style]
  note o2 = description_opening_in_prompt [of memeText description redrawIntensity style]
  have c1: "truthy (trim memeText)"
    if "\<not> js_includes description caption_opening" "js_includes ?prompt (caption_clause memeText)"
  proof -
    have "js_includes ?prompt caption_opening"
      using that(2) opening_in_clause(1) by (rule js_includes_trans)
    with o1 [OF that(1)] show ?thesis by simp
  qed
  have c2: "truthy (trim description)"
    if "\<not> js_includes memeText description_opening"
      "js_includes ?prompt (description_clause description)"
  proof -
    have "js_includes ?prompt description_opening"
      using that(2) opening_in_clause(2) by (rule js_includes_trans)
    with o2 [OF that(1)] show ?thesis by simp
  qed
  note t4 = prompt_without_caption [of memeText description redrawIntensity style]
  note d4 = prompt_without_description [of description memeText redrawIntensity style]
  from t3 d3 o1 o2 c1 c2 t4 d4 truthy_trim [of memeText] truthy_trim [of description]
  show ?thesis by blast
qed

theorem clause_iff_trimmed_witness:
  "\<not> js_includes (js ''  '') caption_opening \<and>
   \<not> js_includes (js ''hello'') description_opening \<and>
   truthy (trim (js ''hello'')) \<and> (\<exists>c\<in>set (js ''hello''). \<not> is_whitespace c) \<and>
   js_includes (fullPrompt (js ''hello'') (js ''  '') (Num 50) (js ''Anime''))
     (caption_clause (js ''hello'')) \<and>
   js_includes (fullPrompt (js ''hello'') (js ''  '') (Num 50) (js ''Anime'')) caption_opening \<and>
   \<not> truthy (trim (js ''  '')) \<and>
   \<not> js_includes (fullPrompt (js ''hello'') (js ''  '') (Num 50) (js ''Anime''))
       (description_clause (js ''  '')) \<and>
   \<not> js_includes (fullPrompt (js ''hello'') (js ''  '') (Num 50) (js ''Anime''))
       description_opening \<and>
   fullPrompt (js ''hello'') (js ''  '') (Num 50) (js ''Anime'') =
     fullPrompt (js ''hello'') [] (Num 50) (js ''Anime'')"
proof -
  have c: "\<not> js_includes (js ''  '') caption_opening"
    "\<not> js_includes (js ''hello'') description_opening"
    by (simp_all add: js_includes_js sublist_code)
  have a: "truthy (trim (js ''hello''))"
    by (simp add: truthy_def trim_def js_def is_whitespace_def)
  have b: "\<not> truthy (trim (js ''  ''))"
    by (simp add: truthy_def trim_def js_def is_whitespace_def)
  from a b c clause_iff_trimmed [of "js ''  ''" "js ''hello''" "Num 50" "js ''Anime''"]
  show ?thesis by blast
qed

text \<open>The prompt for the style \<open>Anime\<close>, intensity 50, caption \<open>hello\<close> and no description.\<close>

lemma prompt_anime_hello: "fullPrompt (js ''hello'') [] (Num 50) (js ''Anime'') =
  js (''Your task is to create an image. Redraw the provided image in a vibrant Japanese anime style, with characteristic large eyes, expressive features, and dynamic lines.  Apply a balanced style, preserving the core facial features of the subject while clearly transforming the overall aesthetic. Finally, integrate the text '' @ [CHR 0x22] @ ''hello'' @ [CHR 0x22] @ '' into the image using a prominent, stylized font that fits the chosen aesthetic. The output must be the final image only, with no explanatory text.'')"
  by (simp add: fullPrompt_def getStyleInstruction_def js_eq_iff getIntensityInstruction_def
      textInstruction_def descriptionInstruction_def truthy_def trim_def is_whitespace_def js_def)

section \<open>The timeout\<close>

text \<open>
  Claim C1. When the service call has not settled within 120 seconds (it settles later, with
  whatever result, or never), the race is decided by the timer, which rejects with
  \<open>Request timed out after 120 seconds.\<close>, and \<open>generateMemeImage\<close> rejects with its
  timeout message: it is not left pending, and the late result of the call is not used.
\<close>

theorem generate_times_out:
  assumes "\<not> settled_by 120000
             (generateContent (generation_request base64ImageData mimeType'
                (fullPrompt memeText description redrawIntensity style)))"
  shows "withTimeout timer_first
           (generateContent (generation_request base64ImageData mimeType'
              (fullPrompt memeText description redrawIntensity style))) 120000 =
           Some (Rejected (JsError (js ''Request timed out after 120 seconds.''))) \<and>
         generateMemeImage generateContent timer_first
           base64ImageData mimeType' memeText description redrawIntensity style =
           Some (Rejected (JsError timeout_message))"
proof -
  let ?p = "generateContent (generation_request base64ImageData mimeType'
              (fullPrompt memeText description redrawIntensity style))"
  have race: "withTimeout timer_first ?p 120000 = Some (Rejected (JsError (timer_message 120000)))"
    using assms by (rule withTimeout_late)
  have "generateMemeImage_try generateContent timer_first
          base64ImageData mimeType' memeText description redrawIntensity style =
        Some (Rejected (JsError (timer_message 120000)))"
    unfolding generateMemeImage_try_def Let_def by (simp only: race option.case settled.case)
  moreover have "generateMemeImage_catch (JsError (timer_message 120000)) = JsError timeout_message"
    unfolding generateMemeImage_catch_def
    by (simp only: thrown.case timer_message_timed_out if_True)
  ultimately have "generateMemeImage generateContent timer_first
      base64ImageData mimeType' memeText description redrawIntensity style =
      Some (Rejected (JsError timeout_message))"
    unfolding generateMemeImage_def by (simp only: option.case settled.case)
  with race show ?thesis
    by (simp only: timer_message_120000 simp_thms)
qed

theorem generate_times_out_witness:
  "\<not> settled_by 120000 (SettlesAt 120001 (Fulfilled \<lparr>candidates = Some [\<lparr>content = Some \<lparr>parts = Some
        [\<lparr>inlineData = Some \<lparr>data = Some (js ''iVBORw0KGgo=''), blob.mimeType = Some (js ''image/png'')\<rparr>,
          text = None\<rparr>]\<rparr>\<rparr>]\<rparr>)) \<and>
   generateMemeImage
     (\<lambda>_. SettlesAt 120001 (Fulfilled \<lparr>candidates = Some [\<lparr>content = Some \<lparr>parts = Some
        [\<lparr>inlineData = Some \<lparr>data = Some (js ''iVBORw0KGgo=''), blob.mimeType = Some (js ''image/png'')\<rparr>,
          text = None\<rparr>]\<rparr>\<rparr>]\<rparr>))
     False (js ''AAAA'') (js ''image/png'') (js ''hello'') [] (Num 50) (js ''Anime'') =
   Some (Rejected (JsError timeout_message)) \<and>
   \<not> settled_by 120000 (NeverSettles :: response promise) \<and>
   generateMemeImage (\<lambda>_. NeverSettles)
     False (js ''AAAA'') (js ''image/png'') (js ''hello'') [] (Num 50) (js ''Anime'') =
   Some (Rejected (JsError timeout_message))"
proof -
  let ?r = "\<lparr>candidates = Some [\<lparr>content = Some \<lparr>parts = Some
        [\<lparr>inlineData = Some \<lparr>data = Some (js ''iVBORw0KGgo=''), blob.mimeType = Some (js ''image/png'')\<rparr>,
          text = None\<rparr>]\<rparr>\<rparr>]\<rparr>"
  have a: "\<not> settled_by 120000 (SettlesAt 120001 (Fulfilled ?r))"
    by (simp add: settled_by_def)
  have b: "\<not> settled_by 120000 (NeverSettles :: response promise)"
    by (simp add: settled_by_def)
  show ?thesis
    using a b
      generate_times_out [where generateContent = "\<lambda>_. SettlesAt 120001 (Fulfilled ?r)"
        and timer_first = False and base64ImageData = "js ''AAAA''"
        and mimeType' = "js ''image/png''" and memeText = "js ''hello''" and description = "[]"
        and redrawIntensity = "Num 50" and style = "js ''Anime''"]
      generate_times_out [where generateContent = "\<lambda>_. NeverSettles"
        and timer_first = False and base64ImageData = "js ''AAAA''"
        and mimeType' = "js ''image/png''" and memeText = "js ''hello''" and description = "[]"
        and redrawIntensity = "Num 50" and style = "js ''Anime''"]
    by blast
qed

section \<open>Reading the response\<close>

text \<open>
  Claim C4. When the service answers in time with a response whose first candidate has
  parts, and \<open>p\<close> is the first of them with inline data \<open>b\<close>, \<open>generateMemeImage\<close>
  resolves with the \<open>data\<close> and the \<open>mimeType\<close> of \<open>b\<close>.
\<close>

theorem generate_returns_first_image:
  assumes "generateContent (generation_request base64ImageData mimeType'
             (fullPrompt memeText description redrawIntensity style)) = SettlesAt t (Fulfilled r)"
    and "t < 120000"
    and "first_parts r = Some (before @ p # after)"
    and "\<forall>q\<in>set before. inlineData q = None"
    and "inlineData p = Some b"
  shows "generateMemeImage generateContent timer_first
           base64ImageData mimeType' memeText description redrawIntensity style =
         Some (Fulfilled \<lparr>base64 = data b, mimeType = blob.mimeType b\<rparr>)"
proof -
  have "generateMemeImage_try generateContent timer_first
          base64ImageData mimeType' memeText description redrawIntensity style =
        Some (extract_image r)"
    using assms(1,2)
      generate_in_time [where generateContent = generateContent and outcome = "Fulfilled r"]
    by simp
  then show ?thesis
    unfolding generateMemeImage_def
    by (simp add: extract_image_first [OF assms(3,4,5)])
qed

theorem generate_returns_first_image_witness:
  "generateMemeImage
     (\<lambda>_. SettlesAt 2000 (Fulfilled \<lparr>candidates = Some [\<lparr>content = Some \<lparr>parts = Some
        ([\<lparr>inlineData = None, text = Some (js ''Here is your image.'')\<rparr>] @
         \<lparr>inlineData = Some \<lparr>data = Some (js ''iVBORw0KGgo=''), blob.mimeType = Some (js ''image/png'')\<rparr>,
          text = None\<rparr> #
         [\<lparr>inlineData = Some \<lparr>data = Some (js ''R0lGODlh''), blob.mimeType = Some (js ''image/gif'')\<rparr>,
           text = None\<rparr>])\<rparr>\<rparr>]\<rparr>))
     True (js ''AAAA'') (js ''image/png'') (js ''hello'') [] (Num 50) (js ''Anime'') =
   Some (Fulfilled \<lparr>base64 = Some (js ''iVBORw0KGgo=''), mimeType = Some (js ''image/png'')\<rparr>)"
proof -
  let ?before = "[\<lparr>inlineData = None, text = Some (js ''Here is your image.'')\<rparr>]"
  let ?b = "\<lparr>data = Some (js ''iVBORw0KGgo=''), blob.mimeType = Some (js ''image/png'')\<rparr>"
  let ?p = "\<lparr>inlineData = Some ?b, text = None\<rparr>"
  let ?after = "[\<lparr>inlineData = Some \<lparr>data = Some (js ''R0lGODlh''), blob.mimeType = Some (js ''image/gif'')\<rparr>,
           text = None\<rparr>]"
  let ?r = "\<lparr>candidates = Some [\<lparr>content = Some \<lparr>parts = Some (?before @ ?p # ?after)\<rparr>\<rparr>]\<rparr>"
  have "first_parts ?r = Some (?before @ ?p # ?after)"
    by (simp add: first_parts_def)
  moreover have "\<forall>q\<in>set ?before. inlineData q = None" by simp
  moreover have "inlineData ?p = Some ?b" by simp
  moreover have "(2000::nat) < 120000" by simp
  ultimately show ?thesis
    using generate_returns_first_image [where generateContent = "\<lambda>_. SettlesAt 2000 (Fulfilled ?r)"
        and t = 2000 and r = ?r and before = ?before and p = ?p and after = ?after and b = ?b
        and timer_first = True and base64ImageData = "js ''AAAA''"
        and mimeType' = "js ''image/png''" and memeText = "js ''hello''" and description = "[]"
        and redrawIntensity = "Num 50" and style = "js ''Anime''"]
    by simp
qed

section \<open>A response without an image\<close>

text \<open>
  A response with no image part and a part with text is rejected with the text in the
  message, as long as the text does not include \<open>timed out\<close>; a response with neither is
  rejected as empty.
\<close>

lemma refusal_embeds_text:
  assumes "generateContent (generation_request base64ImageData mimeType'
             (fullPrompt memeText description redrawIntensity style)) = SettlesAt t (Fulfilled r)"
    and "t < 120000"
    and "find_part (\<lambda>p. inlineData p \<noteq> None) r = None"
    and "find_part has_text r = Some p"
    and "text p = Some txt"
    and "\<not> js_includes txt (js ''timed out'')"
  shows "generateMemeImage generateContent timer_first
           base64ImageData mimeType' memeText description redrawIntensity style =
         Some (Rejected (JsError
           (js ''API Error: '' @ js ''Model returned text instead of an image: '' @ txt)))"
proof -
  have "has_text p"
    using assms(4) by (auto simp: find_part_def find_Some_iff split: option.splits)
  then have "truthy txt"
    using assms(5) by (simp add: has_text_def)
  then have "extract_image r =
      Rejected (JsError (js ''Model returned text instead of an image: '' @ txt))"
    unfolding extract_image_def assms(3) assms(4) by (simp add: assms(5))
  then show ?thesis
    using generate_settled_in_time [where generateContent = generateContent
        and outcome = "Fulfilled r", OF assms(1,2)] assms(6)
    by (simp add: generateMemeImage_catch_def refusal_prefix_no_timed_out)
qed

lemma empty_response_rejected:
  assumes "generateContent (generation_request base64ImageData mimeType'
             (fullPrompt memeText description redrawIntensity style)) = SettlesAt t (Fulfilled r)"
    and "t < 120000"
    and "find_part (\<lambda>p. inlineData p \<noteq> None) r = None"
    and "find_part has_text r = None"
  shows "generateMemeImage generateContent timer_first
           base64ImageData mimeType' memeText description redrawIntensity style =
         Some (Rejected (JsError (js ''API Error: No image data found in the API response.'')))"
proof -
  have "extract_image r = Rejected (JsError (js ''No image data found in the API response.''))"
    unfolding extract_image_def assms(3) assms(4) by simp
  moreover have "\<not> js_includes (js ''No image data found in the API response.'') (js ''timed out'')"
    by (simp add: js_includes_js sublist_code)
  moreover have "js ''API Error: '' @ js ''No image data found in the API response.'' =
      js ''API Error: No image data found in the API response.''"
    by (simp add: js_def)
  ultimately show ?thesis
    using generate_settled_in_time [where generateContent = generateContent
        and outcome = "Fulfilled r", OF assms(1,2)]
    by (simp add: generateMemeImage_catch_def)
qed

text \<open>
  Claim C5. A response without an image part whose text is \<open>The request timed out.\<close> is
  rejected with the timeout message, which does not contain that text: the \<open>catch\<close> block
  takes the error raised for the refusal for a timeout, because its message includes
  \<open>timed out\<close>.
\<close>

theorem refusal_mentioning_timed_out:
  "generateMemeImage
     (\<lambda>_. SettlesAt 2000 (Fulfilled \<lparr>candidates = Some [\<lparr>content = Some \<lparr>parts = Some
        [\<lparr>inlineData = None, text = Some (js ''The request timed out.'')\<rparr>]\<rparr>\<rparr>]\<rparr>))
     True (js ''AAAA'') (js ''image/png'') [] [] (Num 50) (js ''Anime'') =
   Some (Rejected (JsError timeout_message)) \<and>
   \<not> js_includes timeout_message (js ''The request timed out.'')"
proof -
  let ?r = "\<lparr>candidates = Some [\<lparr>content = Some \<lparr>parts = Some
        [\<lparr>inlineData = None, text = Some (js ''The request timed out.'')\<rparr>]\<rparr>\<rparr>]\<rparr>"
  have "extract_image ?r =
      Rejected (JsError (js ''Model returned text instead of an image: '' @ js ''The request timed out.''))"
    by (simp add: extract_image_def find_part_def first_parts_def has_text_def truthy_def js_def)
  moreover have "js ''Model returned text instead of an image: '' @ js ''The request timed out.'' =
      js ''Model returned text instead of an image: The request timed out.''"
    by (simp add: js_def)
  moreover have "js_includes (js ''Model returned text instead of an image: The request timed out.'')
      (js ''timed out'')"
    by (simp add: js_includes_js sublist_code)
  moreover have "\<not> js_includes timeout_message (js ''The request timed out.'')"
    by (simp add: js_includes_js sublist_code)
  ultimately show ?thesis
    using generate_settled_in_time [where generateContent = "\<lambda>_. SettlesAt 2000 (Fulfilled ?r)"
        and outcome = "Fulfilled ?r" and t = 2000
        and timer_first = True and base64ImageData = "js ''AAAA''"
        and mimeType' = "js ''image/png''" and memeText = "[]" and description = "[]"
        and redrawIntensity = "Num 50" and style = "js ''Anime''"]
    by (simp add: generateMemeImage_catch_def)
qed

section \<open>Rejections\<close>

text \<open>
  A rejection of \<open>generateMemeImage\<close> is an \<open>Error\<close> whose message has one of three
  forms, and the error of the 120 second timer gets the timeout message.
\<close>

lemma rejection_forms:
  "generateMemeImage generateContent timer_first
      base64ImageData mimeType' memeText description redrawIntensity style = Some (Rejected e) \<Longrightarrow>
   e = JsError timeout_message \<or> (\<exists>m. e = JsError (js ''API Error: '' @ m)) \<or>
   e = JsError unknown_message"
proof -
  have forms: "generateMemeImage_catch c = JsError timeout_message \<or>
      (\<exists>m. generateMemeImage_catch c = JsError (js ''API Error: '' @ m)) \<or>
      generateMemeImage_catch c = JsError unknown_message" for c
    by (cases c) (simp_all add: generateMemeImage_catch_def)
  assume "generateMemeImage generateContent timer_first
      base64ImageData mimeType' memeText description redrawIntensity style = Some (Rejected e)"
  then show ?thesis
    unfolding generateMemeImage_def using forms
    by (auto split: option.splits settled.splits)
qed

lemma timer_error_caught:
  "generateMemeImage_catch (JsError (js ''Request timed out after 120 seconds.'')) =
   JsError timeout_message"
  using timer_message_timed_out [of 120000]
  unfolding timer_message_120000 generateMemeImage_catch_def
  by (simp only: thrown.case if_True)

text \<open>
  Claim C6. The form is not always the one of the failure's cause: a refusal that arrives
  after 2 seconds, whose text mentions \<open>timed out\<close>, is caught as an \<open>Error\<close> that is
  not a timeout, and is rethrown with the timeout message instead of \<open>API Error: \<close>
  followed by its message.
\<close>

theorem refusal_takes_timeout_form:
  "settled_by 120000
     (SettlesAt 2000 (Fulfilled \<lparr>candidates = Some [\<lparr>content = Some \<lparr>parts = Some
        [\<lparr>inlineData = None,
          text = Some (js ''I cannot add the text timed out to this image.'')\<rparr>]\<rparr>\<rparr>]\<rparr>)) \<and>
   generateMemeImage_try
     (\<lambda>_. SettlesAt 2000 (Fulfilled \<lparr>candidates = Some [\<lparr>content = Some \<lparr>parts = Some
        [\<lparr>inlineData = None,
          text = Some (js ''I cannot add the text timed out to this image.'')\<rparr>]\<rparr>\<rparr>]\<rparr>))
     False (js ''AAAA'') (js ''image/png'') (js ''timed out'') [] (Num 50) (js ''Comical'') =
   Some (Rejected (JsError
     (js ''Model returned text instead of an image: I cannot add the text timed out to this image.''))) \<and>
   generateMemeImage
     (\<lambda>_. SettlesAt 2000 (Fulfilled \<lparr>candidates = Some [\<lparr>content = Some \<lparr>parts = Some
        [\<lparr>inlineData = None,
          text = Some (js ''I cannot add the text timed out to this image.'')\<rparr>]\<rparr>\<rparr>]\<rparr>))
     False (js ''AAAA'') (js ''image/png'') (js ''timed out'') [] (Num 50) (js ''Comical'') =
   Some (Rejected (JsError timeout_message)) \<and>
   timeout_message \<noteq>
     js ''API Error: Model returned text instead of an image: I cannot add the text timed out to this image.''"
proof -
  let ?r = "\<lparr>candidates = Some [\<lparr>content = Some \<lparr>parts = Some
        [\<lparr>inlineData = None,
          text = Some (js ''I cannot add the text timed out to this image.'')\<rparr>]\<rparr>\<rparr>]\<rparr>"
  let ?refusal = "js ''Model returned text instead of an image: I cannot add the text timed out to this image.''"
  have in_time: "settled_by 120000 (SettlesAt 2000 (Fulfilled ?r))"
    by (simp add: settled_by_def)
  have "js ''Model returned text instead of an image: '' @
      js ''I cannot add the text timed out to this image.'' = ?refusal"
    by (simp add: js_def)
  moreover have "extract_image ?r =
      Rejected (JsError (js ''Model returned text instead of an image: '' @
        js ''I cannot add the text timed out to this image.''))"
    by (simp add: extract_image_def find_part_def first_parts_def has_text_def truthy_def js_def)
  ultimately have extracted: "extract_image ?r = Rejected (JsError ?refusal)"
    by (simp only:)
  have caught: "generateMemeImage_try (\<lambda>_. SettlesAt 2000 (Fulfilled ?r))
      False (js ''AAAA'') (js ''image/png'') (js ''timed out'') [] (Num 50) (js ''Comical'') =
      Some (Rejected (JsError ?refusal))"
    using generate_in_time [where generateContent = "\<lambda>_. SettlesAt 2000 (Fulfilled ?r)"
        and outcome = "Fulfilled ?r" and t = 2000 and timer_first = False
        and base64ImageData = "js ''AAAA''" and mimeType' = "js ''image/png''"
        and memeText = "js ''timed out''" and description = "[]"
        and redrawIntensity = "Num 50" and style = "js ''Comical''"]
    by (simp add: extracted)
  have "js_includes ?refusal (js ''timed out'')"
    by (simp add: js_includes_js sublist_code)
  then have "generateMemeImage_catch (JsError ?refusal) = JsError timeout_message"
    by (simp add: generateMemeImage_catch_def)
  with caught have thrown: "generateMemeImage (\<lambda>_. SettlesAt 2000 (Fulfilled ?r))
      False (js ''AAAA'') (js ''image/png'') (js ''timed out'') [] (Num 50) (js ''Comical'') =
      Some (Rejected (JsError timeout_message))"
    by (simp add: generateMemeImage_def)
  have differ: "timeout_message \<noteq>
     js ''API Error: Model returned text instead of an image: I cannot add the text timed out to this image.''"
    by (simp add: js_eq_iff)
  from in_time caught thrown differ show ?thesis by (simp only: simp_thms)
qed

section \<open>The crop\<close>

text \<open>
  Claim C2. When the image decodes and a 2D context is obtained, the result is the PNG data
  URL of a canvas whose width and height are both the smaller of the image's width and
  height, drawn from the source rectangle of that size at offsets \<open>(width - size) / 2\<close> and
  \<open>(height - size) / 2\<close> onto the whole canvas, unscaled. When the offsets are whole numbers
  every pixel of the canvas is the pixel of the image at that offset, stored multiplied by
  its alpha, and an opaque pixel is read back as it was.
\<close>

theorem crop_is_centered_square:
  assumes "decode env dataUrl = Some img" and "context2d env"
  shows "\<exists>canvas.
           cropImageToSquare env dataUrl = Fulfilled (toDataURL env (js ''image/png'') canvas) \<and>
           width canvas = min (width img) (height img) \<and>
           height canvas = min (width img) (height img) \<and>
           canvas = drawImage env img
             ((of_nat (width img) - of_nat (min (width img) (height img))) / 2)
             ((of_nat (height img) - of_nat (min (width img) (height img))) / 2)
             (of_nat (min (width img) (height img))) (of_nat (min (width img) (height img)))
             0 0
             (of_nat (min (width img) (height img))) (of_nat (min (width img) (height img)))
             (blank (min (width img) (height img)) (min (width img) (height img))) \<and>
           (well_formed img \<and> even (width img + height img) \<longrightarrow>
              (\<forall>x < min (width img) (height img). \<forall>y < min (width img) (height img).
                 pixels canvas ! y ! x =
                 premultiply
                   (pixels img ! ((height img - min (width img) (height img)) div 2 + y)
                               ! ((width img - min (width img) (height img)) div 2 + x)) \<and>
                 (opaque (pixels img ! ((height img - min (width img) (height img)) div 2 + y)
                                     ! ((width img - min (width img) (height img)) div 2 + x)) \<longrightarrow>
                  unpremultiply (pixels canvas ! y ! x) =
                  pixels img ! ((height img - min (width img) (height img)) div 2 + y)
                             ! ((width img - min (width img) (height img)) div 2 + x))))"
proof -
  let ?s = "min (width img) (height img)"
  let ?ox = "(width img - ?s) div 2" and ?oy = "(height img - ?s) div 2"
  let ?canvas = "drawImage env img ((of_nat (width img) - of_nat ?s) / 2)
      ((of_nat (height img) - of_nat ?s) / 2) (of_nat ?s) (of_nat ?s) 0 0 (of_nat ?s) (of_nat ?s)
      (blank ?s ?s)"
  have res: "cropImageToSquare env dataUrl = Fulfilled (toDataURL env (js ''image/png'') ?canvas)"
    using assms by (simp add: cropImageToSquare_def Let_def)
  have dims: "width ?canvas = ?s" "height ?canvas = ?s"
    by (simp_all add: drawImage_dims blank_def)
  have px: "pixels ?canvas ! y ! x = premultiply (pixels img ! (?oy + y) ! (?ox + x))"
    if wf: "well_formed img" and sum: "even (width img + height img)"
      and xy: "x < ?s" "y < ?s" for x y
  proof -
    have ev: "even (width img - height img)" "even (height img - width img)"
      using sum by (simp_all add: add.commute)
    have ex: "even (width img - ?s)"
    proof (cases "width img \<le> height img")
      case True
      then show ?thesis by (simp add: min_absorb1)
    next
      case False
      then have "?s = height img" by simp
      with ev(1) show ?thesis by (simp only:)
    qed
    have ey: "even (height img - ?s)"
    proof (cases "height img \<le> width img")
      case True
      then have "?s = height img" by simp
      then show ?thesis by simp
    next
      case False
      then have "?s = width img" by simp
      with ev(2) show ?thesis by (simp only:)
    qed
    have sx: "((of_nat (width img) - of_nat ?s) / 2 :: rat) = of_nat ?ox"
      using ex by (intro half_offset) simp_all
    have sy: "((of_nat (height img) - of_nat ?s) / 2 :: rat) = of_nat ?oy"
      using ey by (intro half_offset) simp_all
    have bx: "?ox + ?s \<le> width img" and byy: "?oy + ?s \<le> height img"
      by (rule half_fits, simp)+
    show ?thesis
      unfolding sx sy
      by (simp only: drawImage_aligned [OF bx byy] crop_nth [OF wf bx byy xy] add.commute)
  qed
  have readback: "unpremultiply (pixels ?canvas ! y ! x) = pixels img ! (?oy + y) ! (?ox + x)"
    if "well_formed img" "even (width img + height img)" "x < ?s" "y < ?s"
      "opaque (pixels img ! (?oy + y) ! (?ox + x))" for x y
    using px [OF that(1-4)] that(5) by (simp only: premultiply_opaque unpremultiply_opaque)
  from res dims px readback show ?thesis by blast
qed

theorem crop_is_centered_square_witness:
  "decode (example_browser example_wide) (js ''data:image/jpeg;base64,AAAA'') = Some example_wide \<and>
   context2d (example_browser example_wide) \<and>
   well_formed example_wide \<and> even (width example_wide + height example_wide) \<and>
   cropImageToSquare (example_browser example_wide) (js ''data:image/jpeg;base64,AAAA'') =
     Fulfilled (toDataURL (example_browser example_wide) (js ''image/png'')
       \<lparr>width = 2, height = 2, pixels = [[2, 3], [6, 7]]\<rparr>) \<and>
   cropImageToSquare (example_browser example_wide) (js ''data:image/jpeg;base64,AAAA'') =
     Fulfilled (js ''data:image/png;base64,'' @ [2, 3, 6, 7])"
proof -
  have pm: "premultiply 2 = 2" "premultiply 3 = 3" "premultiply 6 = 6" "premultiply 7 = 7"
    by (simp_all add: premultiply_def channels_def from_channels_def)
  have um: "unpremultiply 2 = 2" "unpremultiply 3 = 3" "unpremultiply 6 = 6" "unpremultiply 7 = 7"
    by (simp_all add: unpremultiply_def channels_def from_channels_def)
  have f: "toDataURL (example_browser example_wide) (js ''image/png'')
       \<lparr>width = 2, height = 2, pixels = [[2, 3], [6, 7]]\<rparr> =
       js ''data:image/png;base64,'' @ [2, 3, 6, 7]"
    by (simp add: toDataURL_def example_browser_def um) (simp add: js_def)
  have a: "decode (example_browser example_wide) (js ''data:image/jpeg;base64,AAAA'') =
      Some example_wide"
    and b: "context2d (example_browser example_wide)"
    by (simp_all add: example_browser_def)
  have c: "well_formed example_wide" "even (width example_wide + height example_wide)"
    by (simp_all add: well_formed_def example_wide_def)
  have d: "drawImage (example_browser example_wide) example_wide 1 0 2 2 0 0 2 2 (blank 2 2) =
      \<lparr>width = 2, height = 2, pixels = [[2, 3], [6, 7]]\<rparr>"
    by (simp add: drawImage_def blank_def example_wide_def numeral_2_eq_2 pm)
  have e: "min (width example_wide) (height example_wide) = 2"
    "((of_nat (width example_wide) - of_nat 2) / 2 :: rat) = 1"
    "((of_nat (height example_wide) - of_nat 2) / 2 :: rat) = 0"
    by (simp_all add: example_wide_def)
  from crop_is_centered_square [OF a b] obtain canvas where
    "cropImageToSquare (example_browser example_wide) (js ''data:image/jpeg;base64,AAAA'') =
       Fulfilled (toDataURL (example_browser example_wide) (js ''image/png'') canvas)"
    "canvas = drawImage (example_browser example_wide) example_wide
             ((of_nat (width example_wide) - of_nat (min (width example_wide) (height example_wide))) / 2)
             ((of_nat (height example_wide) - of_nat (min (width example_wide) (height example_wide))) / 2)
             (of_nat (min (width example_wide) (height example_wide))) (of_nat (min (width example_wide) (height example_wide)))
             0 0
             (of_nat (min (width example_wide) (height example_wide))) (of_nat (min (width example_wide) (height example_wide)))
             (blank (min (width example_wide) (height example_wide)) (min (width example_wide) (height example_wide)))"
    by blast
  then have "cropImageToSquare (example_browser example_wide) (js ''data:image/jpeg;base64,AAAA'') =
     Fulfilled (toDataURL (example_browser example_wide) (js ''image/png'')
       \<lparr>width = 2, height = 2, pixels = [[2, 3], [6, 7]]\<rparr>)"
    unfolding e using d by simp
  with a b c show ?thesis by (simp only: f simp_thms)
qed

text \<open>
  Claim C9, as stated, fails: a square image of one pixel with the colour (200, 100, 50)
  and alpha 3 comes back with the colour (170, 85, 85), since the canvas keeps the colour
  multiplied by alpha in 8 bits.
\<close>

theorem crop_of_square_changes_translucent:
  "width example_translucent = height example_translucent \<and> well_formed example_translucent \<and>
   decode (example_browser example_translucent) (js ''data:image/png;base64,AAAA'') =
     Some example_translucent \<and>
   context2d (example_browser example_translucent) \<and>
   cropImageToSquare (example_browser example_translucent) (js ''data:image/png;base64,AAAA'') =
     Fulfilled (encode (example_browser example_translucent) (js ''image/png'')
       \<lparr>width = 1, height = 1, pixels = [[0xAA555503]]\<rparr>) \<and>
   cropImageToSquare (example_browser example_translucent) (js ''data:image/png;base64,AAAA'') \<noteq>
     Fulfilled (encode (example_browser example_translucent) (js ''image/png'')
       example_translucent)"
proof -
  have pm: "premultiply 0xC8643203 = 0x02010103"
    by (simp add: premultiply_def channels_def from_channels_def)
  have um: "unpremultiply 0x02010103 = 0xAA555503"
    by (simp add: unpremultiply_def channels_def from_channels_def)
  have wf: "well_formed example_translucent"
    "width example_translucent = height example_translucent"
    by (simp_all add: well_formed_def example_translucent_def)
  have res: "cropImageToSquare (example_browser example_translucent)
      (js ''data:image/png;base64,AAAA'') =
     Fulfilled (encode (example_browser example_translucent) (js ''image/png'')
       \<lparr>width = 1, height = 1, pixels = [[0xAA555503]]\<rparr>)"
    by (simp add: cropImageToSquare_def Let_def toDataURL_def drawImage_def blank_def
        example_translucent_def example_browser_def pm um)
  have "encode (example_browser example_translucent) (js ''image/png'')
       \<lparr>width = 1, height = 1, pixels = [[0xAA555503]]\<rparr> \<noteq>
     encode (example_browser example_translucent) (js ''image/png'') example_translucent"
    by (simp add: example_browser_def example_translucent_def)
  with res wf show ?thesis
    by (simp add: example_browser_def)
qed

text \<open>
  Claim C9, amended. When the image is square the crop region is the whole image, drawn
  unscaled: what is encoded has the dimensions of the image and, pixel for pixel, what the
  canvas gives back for the pixel of the image. When every pixel of the image is opaque, it
  is the image itself.
\<close>

theorem crop_of_square_is_identity:
  assumes "decode env dataUrl = Some img" and "context2d env"
    and "well_formed img" and "width img = height img"
  shows "cropImageToSquare env dataUrl =
           Fulfilled (encode env (js ''image/png'')
             (img\<lparr>pixels := map (map (\<lambda>p. unpremultiply (premultiply p))) (pixels img)\<rparr>)) \<and>
         (list_all (list_all opaque) (pixels img) \<longrightarrow>
            cropImageToSquare env dataUrl = Fulfilled (encode env (js ''image/png'') img))"
proof -
  have whole: "cropImageToSquare env dataUrl =
      Fulfilled (encode env (js ''image/png'')
        (img\<lparr>pixels := map (map (\<lambda>p. unpremultiply (premultiply p))) (pixels img)\<rparr>))"
    using assms(1,2,4) drawImage_whole [OF assms(3,4), of env]
    by (simp add: cropImageToSquare_def Let_def toDataURL_def comp_def)
  have "map (map (\<lambda>p. unpremultiply (premultiply p))) (pixels img) = pixels img"
    if "list_all (list_all opaque) (pixels img)"
  proof -
    have "unpremultiply (premultiply p) = p" if "row \<in> set (pixels img)" "p \<in> set row" for row p
      using that \<open>list_all (list_all opaque) (pixels img)\<close>
      by (auto simp: list_all_iff premultiply_opaque unpremultiply_opaque)
    then show ?thesis
      by (simp add: map_idI)
  qed
  with whole show ?thesis by simp
qed

theorem crop_of_square_is_identity_witness:
  "decode (example_browser example_square) (js ''data:image/jpeg;base64,AAAA'') = Some example_square \<and>
   context2d (example_browser example_square) \<and> well_formed example_square \<and>
   width example_square = height example_square \<and>
   list_all (list_all opaque) (pixels example_square) \<and>
   cropImageToSquare (example_browser example_square) (js ''data:image/jpeg;base64,AAAA'') =
     Fulfilled (encode (example_browser example_square) (js ''image/png'') example_square) \<and>
   cropImageToSquare (example_browser example_square) (js ''data:image/jpeg;base64,AAAA'') =
     Fulfilled (js ''data:image/png;base64,'' @ [0x33FF, 0x66FF, 0x99FF, 0xCCFF])"
proof -
  have f: "encode (example_browser example_square) (js ''image/png'') example_square =
       js ''data:image/png;base64,'' @ [0x33FF, 0x66FF, 0x99FF, 0xCCFF]"
    by (simp add: example_browser_def example_square_def) (simp add: js_def)
  have a: "decode (example_browser example_square) (js ''data:image/jpeg;base64,AAAA'') =
      Some example_square"
    and b: "context2d (example_browser example_square)"
    by (simp_all add: example_browser_def)
  have c: "well_formed example_square" "width example_square = height example_square"
    by (simp_all add: well_formed_def example_square_def)
  have d: "list_all (list_all opaque) (pixels example_square)"
    by (simp add: example_square_def opaque_def)
  from crop_of_square_is_identity [OF a b c] a b c d
  have "cropImageToSquare (example_browser example_square) (js ''data:image/jpeg;base64,AAAA'') =
     Fulfilled (encode (example_browser example_square) (js ''image/png'') example_square)"
    by blast
  with a b c d show ?thesis by (simp only: f simp_thms)
qed

end
